theory Spec2Isabelle
  imports Main "HOL-Library.Multiset"
begin

section \<open>JavaScript values and failures\<close>

text \<open>
  The library is plain JavaScript.  Three kinds of exception occur in the functions
  embedded here: a \<^verbatim>\<open>RangeError\<close> (\<^verbatim>\<open>new Array(k)\<close> with \<open>k\<close> negative, infinite,
  \<^verbatim>\<open>NaN\<close> or above \<open>4294967295\<close>, which is \<open>2^32 - 1\<close>; a call with more arguments than the engine takes; a
  call stack that overflows), a \<^verbatim>\<open>TypeError\<close> (a property read on \<^verbatim>\<open>undefined\<close>, or
  a call of something that is not a function) and the library's own
  \<^verbatim>\<open>throw new Error(msg)\<close>.  \<open>OutOfMemory\<close> is the engine giving up on an array it
  cannot hold.  A function that can fail returns \<open>error + 'a\<close>.
\<close>

datatype error = RangeError | TypeError | Error string | OutOfMemory

text \<open>
  What the engine can do is not fixed by the language: the depth of nested calls it
  allows, the number of arguments one call can take, and the length of the longest array
  it can fill.  They are parameters of the functions that depend on them.
\<close>

record engine =
  max_depth :: nat
  max_args :: nat
  max_length :: nat

text \<open>
  \<^verbatim>\<open>new Array(k).fill(v)\<close> for a number \<open>k\<close> that is not negative: what it throws, if
  anything.  The language allows no array longer than \<open>2^32 - 1\<close>.
\<close>

definition alloc :: "engine \<Rightarrow> nat \<Rightarrow> error option" where
  "alloc eng k =
     (if int k > 4294967295 then Some RangeError
      else if k > max_length eng then Some OutOfMemory
      else None)"

text \<open>
  \<^verbatim>\<open>Math.max(...arr)\<close>.  The spread passes every element as an argument of its own,
  and the call throws a \<^verbatim>\<open>RangeError\<close> when they are more than the engine takes.
  Otherwise the result is the maximum of the elements, and \<^verbatim>\<open>-Infinity\<close> (here
  \<open>None\<close>) for no argument at all.
\<close>

fun maximum :: "nat list \<Rightarrow> nat option" where
  "maximum [] = None"
| "maximum (x # xs) = (case maximum xs of None \<Rightarrow> Some x | Some m \<Rightarrow> Some (max x m))"

definition math_max :: "engine \<Rightarrow> nat list \<Rightarrow> error + nat option" where
  "math_max eng arr =
     (if length arr > max_args eng then Inl RangeError else Inr (maximum arr))"

section \<open>common-utilities.js\<close>

text \<open>
  \<^verbatim>\<open>
  export function tabulate(arr) {
      const maxVal = Math.max(...arr);
      const counts = new Array(maxVal + 1).fill(0);
      for (const val of arr) {
          counts[val] = (counts[val] || 0) + 1;
      }
      return counts;
  }
  \<close>
  For the empty array \<^verbatim>\<open>maxVal\<close> is \<^verbatim>\<open>-Infinity\<close> and \<^verbatim>\<open>new Array(-Infinity)\<close>
  throws a \<^verbatim>\<open>RangeError\<close> (invalid array length).  Otherwise every \<^verbatim>\<open>val\<close> is at most
  \<^verbatim>\<open>maxVal\<close>, so each write \<^verbatim>\<open>counts[val]\<close> is inside the array.
\<close>

definition tabulate_step :: "nat list \<Rightarrow> nat \<Rightarrow> nat list" where
  "tabulate_step counts val = counts[val := counts ! val + 1]"

definition tabulate :: "engine \<Rightarrow> nat list \<Rightarrow> error + nat list" where
  "tabulate eng arr =
     (case math_max eng arr of
        Inl err \<Rightarrow> Inl err
      | Inr None \<Rightarrow> Inl RangeError
      | Inr (Some maxVal) \<Rightarrow>
          (case alloc eng (maxVal + 1) of
             Some err \<Rightarrow> Inl err
           | None \<Rightarrow> Inr (foldl tabulate_step (replicate (maxVal + 1) 0) arr)))"

section \<open>The tree: phylo.js\<close>

text \<open>
  A tree is a plain object with the fields of class \<^verbatim>\<open>Phylo\<close> and an optional
  \<^verbatim>\<open>order\<close> attribute.  Node ids are numbers; tips are \<open>1..n\<close> with \<open>n\<close> the length
  of \<^verbatim>\<open>tipLabel\<close>, internal nodes are above \<open>n\<close>.  A row of the edge matrix is a pair
  \<^verbatim>\<open>[parent, child]\<close>; since \<^verbatim>\<open>reorder\<close> builds the matrix with
  \<^verbatim>\<open>neworder.map(idx => tree.edge[idx])\<close>, a row can also be \<^verbatim>\<open>undefined\<close>, which is
  \<open>None\<close> here, and so can an entry of \<^verbatim>\<open>edgeLength\<close> or \<^verbatim>\<open>nodeLabel\<close>.  A field
  that is \<^verbatim>\<open>null\<close> or absent is \<open>None\<close>.  A branch length is a number: a value of an
  arbitrary type \<open>'l\<close> with an addition, or \<^verbatim>\<open>NaN\<close>, which is what an addition gives
  when an operand is \<^verbatim>\<open>undefined\<close>.
\<close>

datatype 'l num = NaN | Num 'l

type_synonym row = "(nat \<times> nat) option"

record 'l phylo =
  edge :: "row list"
  edgeLength :: "'l num option list option"
  tipLabel :: "string list"
  nodeLabel :: "string option list option"
  Nnode :: int
  rootEdge :: "'l num option"
  order :: "string option"

text \<open>
  Reading \<^verbatim>\<open>row[0]\<close> or \<^verbatim>\<open>row[1]\<close> of every row in turn: a \<^verbatim>\<open>TypeError\<close> at the
  first row that is \<^verbatim>\<open>undefined\<close>.
\<close>

fun rows_of :: "row list \<Rightarrow> error + (nat \<times> nat) list" where
  "rows_of [] = Inr []"
| "rows_of (None # rs) = Inl TypeError"
| "rows_of (Some e # rs) = (case rows_of rs of Inl err \<Rightarrow> Inl err | Inr es \<Rightarrow> Inr (e # es))"

text \<open>\<^verbatim>\<open>xs[i]\<close> on an array whose entries may be \<^verbatim>\<open>undefined\<close>.\<close>

definition js_get :: "'a option list \<Rightarrow> nat \<Rightarrow> 'a option" where
  "js_get xs i = (if i < length xs then xs ! i else None)"

text \<open>\<^verbatim>\<open>xs[0]\<close>, \<^verbatim>\<open>undefined\<close> on the empty array.\<close>

definition js_first :: "'a list \<Rightarrow> 'a option" where
  "js_first xs = (case xs of [] \<Rightarrow> None | x # _ \<Rightarrow> Some x)"

text \<open>\<^verbatim>\<open>xs.indexOf(x)\<close>, with \<open>None\<close> for \<open>-1\<close>.\<close>

fun indexOf :: "'a list \<Rightarrow> 'a \<Rightarrow> nat option" where
  "indexOf [] x = None"
| "indexOf (y # ys) x = (if y = x then Some 0 else map_option Suc (indexOf ys x))"

section \<open>reorder.js\<close>

text \<open>
  \<^verbatim>\<open>reorderRcpp(orig, nTips, root, order)\<close> first sorts the edge indices into buckets, one
  per internal node:
  \<^verbatim>\<open>
  const m = Math.max(...e1);
  const nnode = m - nTips;
  const L = new Array(n).fill(0);
  const neworder = new Array(n).fill(0);
  const pos = new Array(nnode).fill(0);
  const xi = new Array(nnode).fill(0);
  const xj = new Array(nnode).fill(0);
  for (let i = 0; i < n; i++) {
    const idx = e1[i] - nTips - 1;
    xj[idx]++;
  }
  for (let i = 1; i < nnode; i++) {
    xi[i] = xi[i - 1] + xj[i - 1];
  }
  for (let i = 0; i < n; i++) {
    const k = e1[i] - nTips - 1;
    const j = pos[k];
    L[xi[k] + j] = i;
    pos[k]++;
  }
  \<close>
  An index \<^verbatim>\<open>e1[i] - nTips - 1\<close> is at most \<^verbatim>\<open>nnode - 1\<close>.  It is negative when the
  parent is not above \<^verbatim>\<open>nTips\<close>; the three statements then set properties named by a
  negative number or by \<^verbatim>\<open>NaN\<close> and change no element of an array.  The sizes of the
  buckets add up to at most \<open>n\<close>, so \<^verbatim>\<open>xi[k] + j\<close> is an index of \<^verbatim>\<open>L\<close>.
\<close>

definition xj_step :: "nat \<Rightarrow> nat list \<Rightarrow> nat \<Rightarrow> nat list" where
  "xj_step nTips xj p =
     (if p > nTips then xj[p - nTips - 1 := xj ! (p - nTips - 1) + 1] else xj)"

definition xi_step :: "nat list \<Rightarrow> nat list \<Rightarrow> nat \<Rightarrow> nat list" where
  "xi_step xj xi i = xi[i := xi ! (i - 1) + xj ! (i - 1)]"

definition L_step ::
  "nat \<Rightarrow> nat list \<Rightarrow> nat list \<Rightarrow> nat list \<times> nat list \<Rightarrow> nat \<Rightarrow> nat list \<times> nat list" where
  "L_step nTips e1 xi Lpos i =
     (let L = fst Lpos; pos = snd Lpos in
      if e1 ! i > nTips
      then (let k = e1 ! i - nTips - 1; j = pos ! k
            in (L[xi ! k + j := i], pos[k := pos ! k + 1]))
      else (L, pos))"

text \<open>
  \<^verbatim>\<open>xj[i]\<close> as a loop bound: \<^verbatim>\<open>undefined\<close> beyond the array, and then the loop does not
  run.  Nor does it for a node that is not above \<^verbatim>\<open>nTips\<close>, where \<open>i\<close> is negative and
  \<^verbatim>\<open>xj[i]\<close> is \<^verbatim>\<open>undefined\<close> or \<^verbatim>\<open>NaN\<close>.
\<close>

definition bucket_size :: "nat list \<Rightarrow> nat \<Rightarrow> nat" where
  "bucket_size xj i = (if i < length xj then xj ! i else 0)"

text \<open>
  \<^verbatim>\<open>
  function foo_reorderRcpp(node) {
    const i = node - nTips - 1;
    for (let j = 0; j < xj[i]; j++) {
      const k = L[xi[i] + j];
      neworder[iii] = k;
      iii++;
      if (e2[k] > nTips) {
        foo_reorderRcpp(e2[k]);
      }
    }
  }
  \<close>
  The variables of the enclosing function that the two recursive helpers read are passed
  as \<open>(nTips, e2, L, xi, xj)\<close>; the ones they write, \<^verbatim>\<open>neworder\<close> and \<^verbatim>\<open>iii\<close>, are
  passed and returned.  \<^verbatim>\<open>iii\<close> goes up by one from \<open>0\<close>, so a write past the end is a
  write at the length of the array, which appends.  The first argument is the depth of
  calls the engine allows: on an edge matrix with a cycle the recursion does not end, and
  JavaScript throws a \<^verbatim>\<open>RangeError\<close> when the stack is full; \<open>None\<close> is that event.
\<close>

type_synonym buckets = "nat \<times> nat list \<times> nat list \<times> nat list \<times> nat list"

function foo_reorderRcpp ::
    "nat \<Rightarrow> buckets \<Rightarrow> nat \<Rightarrow> nat list \<times> nat \<Rightarrow> (nat list \<times> nat) option"
  and foo_loop ::
    "nat \<Rightarrow> buckets \<Rightarrow> nat \<Rightarrow> nat list \<Rightarrow> nat list \<times> nat \<Rightarrow> (nat list \<times> nat) option" where
  "foo_reorderRcpp 0 b node st = None"
| "foo_reorderRcpp (Suc stack) (nTips, e2, L, xi, xj) node st =
     (if node \<le> nTips then Some st
      else (let i = node - nTips - 1
            in foo_loop stack (nTips, e2, L, xi, xj) i [0 ..< bucket_size xj i] st))"
| "foo_loop stack b i [] st = Some st"
| "foo_loop stack (nTips, e2, L, xi, xj) i (j # js) (neworder, iii) =
     (let k = L ! (xi ! i + j);
          st1 = (if iii < length neworder then neworder[iii := k] else neworder @ [k], iii + 1)
      in if e2 ! k > nTips
         then (case foo_reorderRcpp stack (nTips, e2, L, xi, xj) (e2 ! k) st1 of
                 None \<Rightarrow> None
               | Some st2 \<Rightarrow> foo_loop stack (nTips, e2, L, xi, xj) i js st2)
         else foo_loop stack (nTips, e2, L, xi, xj) i js st1)"
  by pat_completeness auto
termination
  by (relation "inv_image (less_than <*lex*> less_than)
        (\<lambda>x. case x of Inl (stack, b, node, st) \<Rightarrow> (stack, 0)
                      | Inr (stack, b, i, js, st) \<Rightarrow> (stack, Suc (length js)))") auto

text \<open>
  \<^verbatim>\<open>
  function bar_reorderRcpp(node) {
    const i = node - nTips - 1;
    for (let j = xj[i] - 1; j >= 0; j--) {
      neworder[iii] = L[xi[i] + j] + 1; // Note: ot sure if +1 is needed here
      iii--;
    }
    for (let j = 0; j < xj[i]; j++) {
      const k = e2[L[xi[i] + j]];
      if (k > nTips) {
        bar_reorderRcpp(k);
      }
    }
  }
  \<close>
  \<^verbatim>\<open>iii\<close> goes down from \<open>n - 1\<close>; a write at a negative index sets a property and changes
  no element.
\<close>

definition bar_write :: "nat list \<Rightarrow> nat \<Rightarrow> nat list \<times> int \<Rightarrow> nat \<Rightarrow> nat list \<times> int" where
  "bar_write L base st j =
     (let neworder = fst st; iii = snd st
      in (if 0 \<le> iii \<and> iii < int (length neworder)
          then neworder[nat iii := L ! (base + j) + 1] else neworder, iii - 1))"

function bar_reorderRcpp ::
    "nat \<Rightarrow> buckets \<Rightarrow> nat \<Rightarrow> nat list \<times> int \<Rightarrow> (nat list \<times> int) option"
  and bar_loop ::
    "nat \<Rightarrow> buckets \<Rightarrow> nat \<Rightarrow> nat list \<Rightarrow> nat list \<times> int \<Rightarrow> (nat list \<times> int) option" where
  "bar_reorderRcpp 0 b node st = None"
| "bar_reorderRcpp (Suc stack) (nTips, e2, L, xi, xj) node st =
     (if node \<le> nTips then Some st
      else (let i = node - nTips - 1;
                st1 = foldl (bar_write L (xi ! i)) st (rev [0 ..< bucket_size xj i])
            in bar_loop stack (nTips, e2, L, xi, xj) i [0 ..< bucket_size xj i] st1))"
| "bar_loop stack b i [] st = Some st"
| "bar_loop stack (nTips, e2, L, xi, xj) i (j # js) st =
     (let k = e2 ! (L ! (xi ! i + j))
      in if k > nTips
         then (case bar_reorderRcpp stack (nTips, e2, L, xi, xj) k st of
                 None \<Rightarrow> None
               | Some st1 \<Rightarrow> bar_loop stack (nTips, e2, L, xi, xj) i js st1)
         else bar_loop stack (nTips, e2, L, xi, xj) i js st)"
  by pat_completeness auto
termination
  by (relation "inv_image (less_than <*lex*> less_than)
        (\<lambda>x. case x of Inl (stack, b, node, st) \<Rightarrow> (stack, 0)
                      | Inr (stack, b, i, js, st) \<Rightarrow> (stack, Suc (length js)))") auto

text \<open>
  \<^verbatim>\<open>
  if (order === 1) {
    iii = 0;
    foo_reorderRcpp(root);
  } else if (order === 2) {
    iii = n - 1;
    bar_reorderRcpp(root);
  } else {
    throw new Error("order must be 1 or 2");
  }
  return neworder;
  \<close>
  Reading the rows throws a \<^verbatim>\<open>TypeError\<close> on an \<^verbatim>\<open>undefined\<close> row;
  \<^verbatim>\<open>new Array(nnode)\<close> throws a \<^verbatim>\<open>RangeError\<close> when \<^verbatim>\<open>nnode\<close> is negative, or
  \<^verbatim>\<open>-Infinity\<close> for an empty matrix.  The arrays \<^verbatim>\<open>L\<close> and \<^verbatim>\<open>neworder\<close> are
  filled before \<^verbatim>\<open>pos\<close>, \<^verbatim>\<open>xi\<close> and \<^verbatim>\<open>xj\<close>.
\<close>

definition reorderRcpp :: "engine \<Rightarrow> row list \<Rightarrow> nat \<Rightarrow> nat \<Rightarrow> nat \<Rightarrow> error + nat list" where
  "reorderRcpp eng orig nTips root order' =
     (case rows_of orig of
        Inl err \<Rightarrow> Inl err
      | Inr es \<Rightarrow>
         (let n = length es; e1 = map fst es; e2 = map snd es
          in case math_max eng e1 of
               Inl err \<Rightarrow> Inl err
             | Inr None \<Rightarrow> Inl RangeError
             | Inr (Some m) \<Rightarrow>
                (case alloc eng n of
                   Some err \<Rightarrow> Inl err
                 | None \<Rightarrow>
                if m < nTips then Inl RangeError
                else
                 (let nnode = m - nTips
                  in case alloc eng nnode of
                       Some err \<Rightarrow> Inl err
                     | None \<Rightarrow>
                 (let neworder = replicate n 0;
                      xj = foldl (xj_step nTips) (replicate nnode 0) e1;
                      xi = foldl (xi_step xj) (replicate nnode 0) [1 ..< nnode];
                      L = fst (foldl (L_step nTips e1 xi)
                                 (replicate n 0, replicate nnode 0) [0 ..< n]);
                      stack = max_depth eng
                  in if order' = 1
                     then (case foo_reorderRcpp stack (nTips, e2, L, xi, xj) root (neworder, 0) of
                             None \<Rightarrow> Inl RangeError
                           | Some st \<Rightarrow> Inr (fst st))
                     else if order' = 2
                     then (case bar_reorderRcpp stack (nTips, e2, L, xi, xj) root
                                  (neworder, int n - 1) of
                             None \<Rightarrow> Inl RangeError
                           | Some st \<Rightarrow> Inr (fst st))
                     else Inl (Error ''order must be 1 or 2''))))))"

text \<open>
  \<^verbatim>\<open>
  function _reorder_ape(tree, order, indexOnly, nbTip, io) {
    const nbEdge = tree.edge.length;
    if (tree.order != null && tree.order === order) {
      if (indexOnly) return Array.from({ length: nbEdge }, (_, i) => i);
      return tree;
    }
    if (tree.Nnode === 1) {
      if (indexOnly) return Array.from({ length: nbEdge }, (_, i) => i);
      return tree;
    }
    const neworder = reorderRcpp(tree.edge, nbTip, nbTip + 1, io);
    if (indexOnly) return neworder;
    tree.edge = neworder.map(idx => tree.edge[idx]);
    if (tree.edgeLength != null) {
      tree.edgeLength = neworder.map(idx => tree.edgeLength[idx]);
    }
    tree.order = order;
    return tree;
  }

  function reorder(tree, order = "cladewise", indexOnly = false) {
    const ORDER = ["cladewise", "postorder"];
    const ioIndex = ORDER.indexOf(order);
    if (ioIndex === -1) throw new Error("ambiguous order");
    const io = ioIndex + 1;
    const n = tree.tipLabel.length;
    if (n < 2) return tree;
    else return _reorder_ape(tree, ORDER[ioIndex], indexOnly, n, io);
  }
  \<close>
  What is returned is an array of edge indices or a tree.  The tree is changed in place
  and returned; here the changed tree is returned.
\<close>

datatype 'l reordered = Index "nat list" | Phylo "'l phylo"

definition reorder_ape ::
  "engine \<Rightarrow> 'l phylo \<Rightarrow> string \<Rightarrow> bool \<Rightarrow> nat \<Rightarrow> nat \<Rightarrow> error + 'l reordered" where
  "reorder_ape eng tree order' indexOnly nbTip io =
     (let nbEdge = length (edge tree)
      in if order tree \<noteq> None \<and> order tree = Some order'
         then (if indexOnly then Inr (Index [0 ..< nbEdge]) else Inr (Phylo tree))
         else if Nnode tree = 1
         then (if indexOnly then Inr (Index [0 ..< nbEdge]) else Inr (Phylo tree))
         else case reorderRcpp eng (edge tree) nbTip (nbTip + 1) io of
                Inl err \<Rightarrow> Inl err
              | Inr neworder \<Rightarrow>
                  if indexOnly then Inr (Index neworder)
                  else Inr (Phylo (tree
                    \<lparr> edge := map (js_get (edge tree)) neworder,
                      edgeLength := (case edgeLength tree of
                                       None \<Rightarrow> None
                                     | Some el \<Rightarrow> Some (map (js_get el) neworder)),
                      order := Some order' \<rparr>)))"

definition reorder :: "engine \<Rightarrow> 'l phylo \<Rightarrow> string \<Rightarrow> bool \<Rightarrow> error + 'l reordered" where
  "reorder eng tree order' indexOnly =
     (let ORDER = [''cladewise'', ''postorder'']
      in case indexOf ORDER order' of
           None \<Rightarrow> Inl (Error ''ambiguous order'')
         | Some ioIndex \<Rightarrow>
            (let io = ioIndex + 1; n = length (tipLabel tree)
             in if n < 2 then Inr (Phylo tree)
                else reorder_ape eng tree (ORDER ! ioIndex) indexOnly n io))"

section \<open>root.js: \<open>isRooted\<close>\<close>

text \<open>
  \<^verbatim>\<open>
  export function isRooted(phy, ntips) {
    if (phy.rootEdge != null) return true;
    const parentCounts = {};
    phy.edge.forEach(edge => {
      const parent = edge[0];
      parentCounts[parent] = (parentCounts[parent] || 0) + 1;
    });
    const count = parentCounts[ntips + 1] || 0;
    return count <= 2;
  }
  \<close>
  The second parameter is \<open>None\<close> when the caller passes no value for it, as the default
  \<^verbatim>\<open>rooted = isRooted(phy)\<close> of \<^verbatim>\<open>dropTip\<close> does.  Then \<^verbatim>\<open>ntips + 1\<close> is
  \<^verbatim>\<open>NaN\<close>, no parent id is stored under that key, and \<^verbatim>\<open>count\<close> is \<open>0\<close>.
\<close>

definition parentCounts_step :: "(nat \<rightharpoonup> nat) \<Rightarrow> nat \<times> nat \<Rightarrow> (nat \<rightharpoonup> nat)" where
  "parentCounts_step parentCounts e =
     parentCounts(fst e \<mapsto> (case parentCounts (fst e) of None \<Rightarrow> 0 | Some c \<Rightarrow> c) + 1)"

definition isRooted :: "'l phylo \<Rightarrow> nat option \<Rightarrow> error + bool" where
  "isRooted phy ntips =
     (if rootEdge phy \<noteq> None then Inr True
      else case rows_of (edge phy) of
        Inl err \<Rightarrow> Inl err
      | Inr es \<Rightarrow>
          (let parentCounts = foldl parentCounts_step Map.empty es;
               count = (case ntips of
                          None \<Rightarrow> 0
                        | Some n \<Rightarrow> (case parentCounts (n + 1) of None \<Rightarrow> 0 | Some c \<Rightarrow> c))
           in Inr (count \<le> 2)))"

section \<open>drop-tip.js: \<open>dropTip\<close> up to its special cases\<close>

text \<open>
  The argument \<^verbatim>\<open>tip\<close> is a label, an array of labels, an array of tip numbers, or a
  single number.
\<close>

datatype tip_arg = Label string | Labels "string list" | Ids "nat list" | Id nat

text \<open>
  \<^verbatim>\<open>
  if (typeof tip === "string") tip = [tip];
  if (Array.isArray(tip) && typeof tip[0] === "string") {
    tip = tip
      .map((t) => {
        const idx = phy.tipLabel.indexOf(t);
        return idx !== -1 ? idx + 1 : null;
      })
      .filter((x) => x !== null);
  }
  \<close>
  A single number is left as it is, and the next statement, \<^verbatim>\<open>tip.filter(...)\<close>, throws
  a \<^verbatim>\<open>TypeError\<close> on it.
\<close>

definition resolve_labels :: "string list \<Rightarrow> string list \<Rightarrow> nat list" where
  "resolve_labels labels tip =
     map (\<lambda>x. the x + 1) (filter (\<lambda>x. x \<noteq> None) (map (\<lambda>t. indexOf labels t) tip))"

fun resolve_tip :: "'l phylo \<Rightarrow> tip_arg \<Rightarrow> error + nat list" where
  "resolve_tip phy (Label t) = Inr (resolve_labels (tipLabel phy) [t])"
| "resolve_tip phy (Labels ts) = Inr (resolve_labels (tipLabel phy) ts)"
| "resolve_tip phy (Ids ts) = Inr ts"
| "resolve_tip phy (Id t) = Inl TypeError"

text \<open>
  \<^verbatim>\<open>phy.edge.findIndex((row) => row[1] === x)\<close>, where \<^verbatim>\<open>x\<close> may be
  \<^verbatim>\<open>undefined\<close>: the index of the first row whose child is \<^verbatim>\<open>x\<close> together with that
  row, \<open>None\<close> for \<open>-1\<close>, and a \<^verbatim>\<open>TypeError\<close> when a row before the match is
  \<^verbatim>\<open>undefined\<close>.
\<close>

fun findIndex_child :: "row list \<Rightarrow> nat option \<Rightarrow> error + (nat \<times> nat \<times> nat) option" where
  "findIndex_child [] x = Inr None"
| "findIndex_child (None # rs) x = Inl TypeError"
| "findIndex_child (Some (p, c) # rs) x =
     (if Some c = x then Inr (Some (0, p, c))
      else case findIndex_child rs x of
             Inl err \<Rightarrow> Inl err
           | Inr None \<Rightarrow> Inr None
           | Inr (Some (i, e)) \<Rightarrow> Inr (Some (Suc i, e)))"

text \<open>What a call returns: a tree, or \<^verbatim>\<open>null\<close>.\<close>

datatype 'l outcome = Tree "'l phylo" | Null

text \<open>
  A function of which only the first statements are embedded either returns there, or
  control goes on to the statements that follow, with the local variables they read.
\<close>

datatype ('r, 'k) flow = Return 'r | Proceed 'k

text \<open>
  \<^verbatim>\<open>
  if (tip.length === Ntip - 1 && trimInternal) {
    const allTips = Array.from({ length: Ntip }, (_, i) => i + 1);
    const remaining = allTips.filter((x) => !tip.includes(x));
    const iEdge = phy.edge.findIndex((row) => row[1] === remaining[0]);
    if (iEdge === -1) {
      console.warn("Edge for the remaining tip not found");
      return phy;
    }
    const res = {
      edge: [[2, 1]], // mimics matrix(2:1, 1, 2)
      tipLabel: [phy.tipLabel[phy.edge[iEdge][1] - 1]],
      Nnode: 1,
    };
    if (wbl) res.edgeLength = [phy.edgeLength[iEdge]];
    if (phy.nodeLabel)
      res.nodeLabel = [phy.nodeLabel[phy.edge[iEdge][0] - Ntip - 1]];
    return res;
  }
  \<close>
  The child of the row found is \<^verbatim>\<open>remaining[0]\<close>, an element of \<^verbatim>\<open>allTips\<close>, so the
  read of \<^verbatim>\<open>phy.tipLabel\<close> is in range.  The index into \<^verbatim>\<open>phy.nodeLabel\<close> is
  negative when the parent is not above \<^verbatim>\<open>Ntip\<close>; the read is then \<^verbatim>\<open>undefined\<close>.
  The result pairs the warnings printed with what is returned or thrown.
\<close>

definition dropTip_one_left :: "'l phylo \<Rightarrow> nat list \<Rightarrow> string list \<times> (error + 'l outcome)" where
  "dropTip_one_left phy tip =
     (let Ntip = length (tipLabel phy);
          allTips = [1 ..< Ntip + 1];
          remaining = filter (\<lambda>x. x \<notin> set tip) allTips
      in case findIndex_child (edge phy) (js_first remaining) of
           Inl err \<Rightarrow> ([], Inl err)
         | Inr None \<Rightarrow> ([''Edge for the remaining tip not found''], Inr (Tree phy))
         | Inr (Some (iEdge, parent, child)) \<Rightarrow>
             ([], Inr (Tree
                \<lparr> edge = [Some (2, 1)],
                  edgeLength = (case edgeLength phy of
                                  None \<Rightarrow> None
                                | Some el \<Rightarrow> Some [js_get el iEdge]),
                  tipLabel = [tipLabel phy ! (child - 1)],
                  nodeLabel = (case nodeLabel phy of
                                 None \<Rightarrow> None
                               | Some nl \<Rightarrow>
                                   Some [if parent > Ntip then js_get nl (parent - Ntip - 1)
                                         else None]),
                  Nnode = 1,
                  rootEdge = None,
                  order = None \<rparr>)))"

text \<open>
  \<^verbatim>\<open>
  export function dropTip(phy, tip, trimInternal = true, subtree = false, rootEdge = 0,
    rooted = isRooted(phy), collapseSinglesFlag = true) {
    const Ntip = phy.tipLabel.length;
    ... (the resolution of labels, above)
    const outOfRange = tip.filter((t) => t > Ntip);
    if (outOfRange.length > 0) {
      console.warn(
        "some tip numbers were larger than the number of tips: they were ignored"
      );
      tip = tip.filter((t) => t <= Ntip);
    }
    if (tip.length === 0) return phy;
    if (tip.length === Ntip) {
      if (phy.Nnode < 3 || trimInternal) {
        console.warn("drop all tips of the tree: returning null");
        return null;
      }
    }
    const wbl = phy.edgeLength != null;
    ... (the case of one tip left, above)
  \<close>
  \<open>dropTip_head\<close> is the function up to this point: lines 388 to 451 of the source.  The
  default of \<^verbatim>\<open>rooted\<close> is evaluated on entry when the caller gives none (\<open>None\<close>).
  \<open>Proceed (tip, rooted)\<close> says that none of the early returns was taken and the pruning
  itself starts, with these values of \<^verbatim>\<open>tip\<close> and \<^verbatim>\<open>rooted\<close>.
\<close>

definition dropTip_head ::
  "'l phylo \<Rightarrow> tip_arg \<Rightarrow> bool \<Rightarrow> bool option \<Rightarrow>
   string list \<times> (error + ('l outcome, nat list \<times> bool) flow)" where
  "dropTip_head phy tip trimInternal rooted =
     (case (case rooted of None \<Rightarrow> isRooted phy None | Some b \<Rightarrow> Inr b) of
        Inl err \<Rightarrow> ([], Inl err)
      | Inr rooted' \<Rightarrow>
         (case resolve_tip phy tip of
            Inl err \<Rightarrow> ([], Inl err)
          | Inr tip1 \<Rightarrow>
              (let Ntip = length (tipLabel phy);
                   outOfRange = filter (\<lambda>t. t > Ntip) tip1;
                   warned = (if length outOfRange > 0
                     then [''some tip numbers were larger than the number of tips: they were ignored'']
                     else []);
                   tip2 = (if length outOfRange > 0 then filter (\<lambda>t. t \<le> Ntip) tip1 else tip1)
               in if length tip2 = 0 then (warned, Inr (Return (Tree phy)))
                  else if length tip2 = Ntip \<and> (Nnode phy < 3 \<or> trimInternal)
                  then (warned @ [''drop all tips of the tree: returning null''], Inr (Return Null))
                  else if length tip2 + 1 = Ntip \<and> trimInternal
                  then (case dropTip_one_left phy tip2 of
                          (ws, Inl err) \<Rightarrow> (warned @ ws, Inl err)
                        | (ws, Inr res) \<Rightarrow> (warned @ ws, Inr (Return res)))
                  else (warned, Inr (Proceed (tip2, rooted'))))))"

section \<open>root.js: \<open>unrootPhylo\<close> up to the test for a rooted tree\<close>

text \<open>
  \<^verbatim>\<open>
  export function unrootPhylo(phy, n, collapseSinglesFlag = false, keepRootEdge = false) {
    if (collapseSinglesFlag) {
      if (typeof collapseSingles === "function") {
        phy = collapseSingles(phy);
      } else {
        throw new Error("Utility function 'collapseSingles' is missing.");
      }
    }
    let N = phy.edge.length;
    if (N < 3) {
      throw new Error("cannot unroot a tree with less than three edges.");
    }
    const totalNodes = n + phy.Nnode;
    const dgr = new Array(totalNodes).fill(0);
    for (let i = 0; i < phy.edge.length; i++) {
      const parent = phy.edge[i][0];
      const child = phy.edge[i][1];
      if (parent >= 1 && parent <= totalNodes) dgr[parent - 1]++;
      if (child >= 1 && child <= totalNodes) dgr[child - 1]++;
    }
    if (dgr.every(count => count < 3)) {
      throw new Error("cannot unroot a tree where all nodes are singleton");
    }
    if (phy.rootEdge == null) {
      keepRootEdge = false;
    } else {
      if (!keepRootEdge) phy.rootEdge = null;
    }
    if (!isRooted(phy, n)) return phy;
  \<close>
  root.js imports \<^verbatim>\<open>reorder\<close> and \<^verbatim>\<open>propPart\<close> only, so
  \<^verbatim>\<open>typeof collapseSingles\<close> is \<^verbatim>\<open>"undefined"\<close> in this module and the first branch
  throws.  \<^verbatim>\<open>n\<close> is \<open>None\<close> when the caller passes none, as \<^verbatim>\<open>rootPhylo\<close> does;
  \<^verbatim>\<open>new Array(NaN)\<close> and \<^verbatim>\<open>new Array(k)\<close> with \<open>k\<close> negative throw a
  \<^verbatim>\<open>RangeError\<close>.  \<open>Proceed (phy, keepRootEdge, dgr)\<close> says that the tree is rooted and
  the unrooting itself starts.
\<close>

definition dgr_step :: "int \<Rightarrow> nat list \<Rightarrow> nat \<times> nat \<Rightarrow> nat list" where
  "dgr_step totalNodes dgr e =
     (let parent = fst e; child = snd e;
          dgr1 = (if parent \<ge> 1 \<and> int parent \<le> totalNodes
                  then dgr[parent - 1 := dgr ! (parent - 1) + 1] else dgr)
      in if child \<ge> 1 \<and> int child \<le> totalNodes
         then dgr1[child - 1 := dgr1 ! (child - 1) + 1] else dgr1)"

definition unrootPhylo_head ::
  "'l phylo \<Rightarrow> nat option \<Rightarrow> bool \<Rightarrow> bool \<Rightarrow>
   error + ('l phylo, 'l phylo \<times> bool \<times> nat list) flow" where
  "unrootPhylo_head phy n collapseSinglesFlag keepRootEdge =
     (if collapseSinglesFlag then Inl (Error ''Utility function 'collapseSingles' is missing.'')
      else if length (edge phy) < 3
      then Inl (Error ''cannot unroot a tree with less than three edges.'')
      else case n of
        None \<Rightarrow> Inl RangeError
      | Some n' \<Rightarrow>
         (let totalNodes = int n' + Nnode phy
          in if totalNodes < 0 then Inl RangeError
             else case rows_of (edge phy) of
               Inl err \<Rightarrow> Inl err
             | Inr es \<Rightarrow>
                (let dgr = foldl (dgr_step totalNodes) (replicate (nat totalNodes) 0) es
                 in if list_all (\<lambda>count. count < 3) dgr
                    then Inl (Error ''cannot unroot a tree where all nodes are singleton'')
                    else
                     (let keepRootEdge' = (if rootEdge phy = None then False else keepRootEdge);
                          phy' = (if rootEdge phy \<noteq> None \<and> \<not> keepRootEdge
                                  then phy\<lparr>rootEdge := None\<rparr> else phy)
                      in case isRooted phy' n of
                           Inl err \<Rightarrow> Inl err
                         | Inr rooted \<Rightarrow>
                             if \<not> rooted then Inr (Return phy')
                             else Inr (Proceed (phy', keepRootEdge', dgr))))))"

section \<open>collapse-singles.js\<close>

text \<open>
  \<^verbatim>\<open>xs.splice(i, 1)\<close>; \<^verbatim>\<open>xs[i]\<close> on an array without holes; \<^verbatim>\<open>xs[i] = v\<close> on an
  array that may have holes, which puts holes between the old end and \<open>i\<close> when \<open>i\<close> is
  past the end; \<^verbatim>\<open>a + b\<close> on branch lengths, \<^verbatim>\<open>NaN\<close> when an operand is no number;
  \<^verbatim>\<open>[...new Set(xs)]\<close>, the distinct elements in the order of their first occurrence.
\<close>

definition splice1 :: "'a list \<Rightarrow> nat \<Rightarrow> 'a list" where
  "splice1 xs i = take i xs @ drop (Suc i) xs"

definition js_nth :: "'a list \<Rightarrow> nat \<Rightarrow> 'a option" where
  "js_nth xs i = (if i < length xs then Some (xs ! i) else None)"

definition js_set :: "'a option list \<Rightarrow> nat \<Rightarrow> 'a option \<Rightarrow> 'a option list" where
  "js_set xs i v =
     (if i < length xs then xs[i := v] else xs @ replicate (i - length xs) None @ [v])"

definition js_add :: "('l::plus) num option \<Rightarrow> 'l num option \<Rightarrow> 'l num" where
  "js_add a b = (case (a, b) of (Some (Num x), Some (Num y)) \<Rightarrow> Num (x + y) | _ \<Rightarrow> NaN)"

definition uniq :: "'a list \<Rightarrow> 'a list" where
  "uniq xs = foldl (\<lambda>seen x. if x \<in> set seen then seen else seen @ [x]) [] xs"

text \<open>
  \<^verbatim>\<open>
  let ROOT = n + 1;
  while (true) {
    tab = tabulate(e1);
    if (tab[ROOT] === 1) {
      const iIndices = [];
      for (let i = 0; i < e1.length; i++) {
        if (e1[i] === ROOT) iIndices.push(i);
      }
      if (iIndices.length === 0) break;
      const iIndex = iIndices[0];
      ROOT = e2[iIndex];
      e1.splice(iIndex, 1);
      e2.splice(iIndex, 1);
      if (wbl) {
        if (rootEdge) ROOTEDGE += el[iIndex];
        el.splice(iIndex, 1);
      }
    } else {
      break;
    }
  }
  \<close>
  Each turn that does not leave the loop removes an element of \<^verbatim>\<open>e1\<close>.  \<^verbatim>\<open>tabulate\<close>
  is called again on every turn, and it throws on the empty array.
\<close>

lemma indexOf_less: "indexOf xs x = Some i \<Longrightarrow> i < length xs"
  by (induction xs arbitrary: i) (auto split: if_splits)

type_synonym 'l basal = "nat \<times> nat list \<times> nat list \<times> 'l num option list \<times> 'l num"

function basal_singletons ::
    "engine \<Rightarrow> bool \<Rightarrow> bool \<Rightarrow> ('l::plus) basal \<Rightarrow> error + 'l basal" where
  "basal_singletons eng wbl rootEdge' (ROOT, e1, e2, el, ROOTEDGE) =
     (case tabulate eng e1 of
        Inl err \<Rightarrow> Inl err
      | Inr tab \<Rightarrow>
          if js_nth tab ROOT = Some 1
          then (case indexOf e1 ROOT of
                  None \<Rightarrow> Inr (ROOT, e1, e2, el, ROOTEDGE)
                | Some iIndex \<Rightarrow>
                    basal_singletons eng wbl rootEdge'
                      (e2 ! iIndex, splice1 e1 iIndex, splice1 e2 iIndex,
                       if wbl then splice1 el iIndex else el,
                       if wbl \<and> rootEdge' then js_add (Some ROOTEDGE) (js_get el iIndex)
                       else ROOTEDGE))
          else Inr (ROOT, e1, e2, el, ROOTEDGE))"
  by pat_completeness auto
termination
proof (relation "measure (\<lambda>(eng, wbl, rootEdge', ROOT, e1, e2, el, ROOTEDGE). length e1)")
  show "wf (measure (\<lambda>(eng, wbl, rootEdge', ROOT, e1, e2, el, ROOTEDGE). length e1))" by simp
next
  fix eng :: engine and wbl rootEdge' :: bool and ROOT :: nat and e1 e2 :: "nat list"
    and el :: "('l::plus) num option list" and ROOTEDGE :: "'l num" and tab iIndex
  assume "indexOf e1 ROOT = Some iIndex"
  then have "iIndex < length e1" by (rule indexOf_less)
  then show "((eng, wbl, rootEdge', e2 ! iIndex, splice1 e1 iIndex, splice1 e2 iIndex,
         if wbl then splice1 el iIndex else el,
         if wbl \<and> rootEdge' then js_add (Some ROOTEDGE) (js_get el iIndex) else ROOTEDGE),
        eng, wbl, rootEdge', ROOT, e1, e2, el, ROOTEDGE)
       \<in> measure (\<lambda>(eng, wbl, rootEdge', ROOT, e1, e2, el, ROOTEDGE). length e1)"
    by (simp add: splice1_def)
qed

declare basal_singletons.simps [simp del]

text \<open>
  \<^verbatim>\<open>
  const ii = singles.map(s => e1.indexOf(s)).sort((a, b) => b - a);
  const jj = ii.map(idx => e2.indexOf(e1[idx]));
  for (let k = 0; k < ii.length; k++) {
    e2[jj[k]] = e2[ii[k]];
    if (wbl) {
      el[jj[k]] = el[jj[k]] + el[ii[k]];
    }
  }
  \<close>
  One turn of the loop.  \<^verbatim>\<open>jj[k]\<close> is \<open>-1\<close> (\<open>None\<close>) when the singleton is the child
  of no row; both writes then set a property and change no element.
\<close>

definition merge_single ::
  "bool \<Rightarrow> nat list \<times> ('l::plus) num option list \<Rightarrow> nat \<times> nat option \<Rightarrow>
   nat list \<times> 'l num option list" where
  "merge_single wbl e2el ij =
     (let e2 = fst e2el; el = snd e2el; i = fst ij
      in case snd ij of
           None \<Rightarrow> (e2, el)
         | Some j \<Rightarrow>
             (e2[j := e2 ! i],
              if wbl then js_set el j (Some (js_add (js_get el j) (js_get el i))) else el))"

text \<open>
  \<^verbatim>\<open>newNb[internalNodes[i] - 1] = newNumbers[i]\<close>, where \<^verbatim>\<open>newNumbers[i]\<close> is
  \<^verbatim>\<open>undefined\<close> past the end of \<^verbatim>\<open>newNumbers\<close>.
\<close>

definition renumber_step :: "nat list \<Rightarrow> nat option list \<Rightarrow> nat \<times> nat \<Rightarrow> nat option list" where
  "renumber_step newNumbers newNb inode = js_set newNb (snd inode - 1) (js_nth newNumbers (fst inode))"

text \<open>
  The new edge matrix is built from \<^verbatim>\<open>e1.map(val => newNb[val - 1])\<close> and the like.  On
  a tree that breaks the invariants of the data model an entry can be \<^verbatim>\<open>undefined\<close>; a
  matrix with \<^verbatim>\<open>undefined\<close> in the place of a node id is no value of type \<open>phylo\<close>,
  and \<open>Undefined_ids\<close> stands for the tree returned then.
\<close>

fun all_defined :: "'a option list \<Rightarrow> 'a list option" where
  "all_defined [] = Some []"
| "all_defined (None # xs) = None"
| "all_defined (Some x # xs) = map_option ((#) x) (all_defined xs)"

datatype 'l collapsed = Collapsed "'l phylo" | Undefined_ids

text \<open>
  \<^verbatim>\<open>
  export function collapseSingles(tree, rootEdge = false) {
    const n = tree.tipLabel.length;
    if (n === 0) return tree;
    tree = reorder(tree);
    let e1 = tree.edge.map(row => row[0]);
    let e2 = tree.edge.map(row => row[1]);
    let tab = tabulate(e1);
    let allInternalMultiple = true;
    for (let i = n + 1; i < tab.length; i++) {
      if (tab[i] <= 1) { allInternalMultiple = false; break; }
    }
    if (allInternalMultiple) return tree;
    let wbl = false;
    let el = [];
    if (tree.edgeLength == null) {
      rootEdge = false;
    } else {
      wbl = true;
      el = tree.edgeLength.slice();
    }
    let ROOTEDGE = 0;
    ... (the loop over basal singletons, above)
    const tabE1 = tabulate(e1);
    const singles = [];
    for (let i = 0; i < tabE1.length; i++) {
      if (i > n && tabE1[i] === 1) singles.push(i);
    }
    if (singles.length > 0) {
      ... (the loop over ii and jj, above)
      for (const idx of ii) {
        e1.splice(idx, 1);
        e2.splice(idx, 1);
        if (wbl) el.splice(idx, 1);
      }
    }
    const Nnode = e1.length - n + 1;
    const oldnodes = [...new Set(e1)];
    if (tree.nodeLabel) {
      tree.nodeLabel = oldnodes.map(val => tree.nodeLabel[val - n - 1]);
    }
    const maxOld = Math.max(...oldnodes);
    const newNb = new Array(maxOld).fill(0);
    newNb[ROOT - 1] = n + 1;
    const internalNodes = [...new Set(e2.filter(val => val > n))].sort((a, b) => a - b);
    const newNumbers = [];
    for (let num = n + 2; num <= n + Nnode; num++) newNumbers.push(num);
    for (let i = 0; i < internalNodes.length; i++) {
      newNb[internalNodes[i] - 1] = newNumbers[i];
    }
    e2 = e2.map(val => (val > n ? newNb[val - 1] : val));
    e1 = e1.map(val => newNb[val - 1]);
    tree.edge = [];
    for (let i = 0; i < e1.length; i++) tree.edge.push([e1[i], e2[i]]);
    tree.Nnode = Nnode;
    if (wbl) {
      if (rootEdge) tree.rootEdge = ROOTEDGE;
      tree.edgeLength = el;
    }
    return tree;
  }
  \<close>
  A node counted once by \<^verbatim>\<open>tabulate\<close> occurs in \<^verbatim>\<open>e1\<close>, so every
  \<^verbatim>\<open>e1.indexOf(s)\<close> is an index.  With no singleton the loops over \<^verbatim>\<open>ii\<close> run zero
  times, which is what the test \<^verbatim>\<open>singles.length > 0\<close> does.  \<^verbatim>\<open>reorder\<close> is called
  without \<^verbatim>\<open>indexOnly\<close> and returns a tree; were it an array, \<^verbatim>\<open>tree.edge.map\<close> would
  throw a \<^verbatim>\<open>TypeError\<close>.  When \<^verbatim>\<open>ROOT\<close> is \<open>0\<close>, \<^verbatim>\<open>newNb[ROOT - 1]\<close> is the property
  \<open>-1\<close>, which \<^verbatim>\<open>newNb[val - 1]\<close> reads back for \<^verbatim>\<open>val\<close> \<open>0\<close>.
\<close>

definition collapseSingles ::
  "engine \<Rightarrow> ('l::{plus,zero}) phylo \<Rightarrow> bool \<Rightarrow> error + 'l collapsed" where
  "collapseSingles eng tree0 rootEdge0 =
     (let n = length (tipLabel tree0)
      in if n = 0 then Inr (Collapsed tree0)
         else case reorder eng tree0 ''cladewise'' False of
           Inl err \<Rightarrow> Inl err
         | Inr (Index idx) \<Rightarrow> Inl TypeError
         | Inr (Phylo tree) \<Rightarrow>
            (case rows_of (edge tree) of
               Inl err \<Rightarrow> Inl err
             | Inr es \<Rightarrow>
                (case tabulate eng (map fst es) of
                   Inl err \<Rightarrow> Inl err
                 | Inr tab \<Rightarrow>
                    if list_all (\<lambda>i. \<not> tab ! i \<le> 1) [n + 1 ..< length tab]
                    then Inr (Collapsed tree)
                    else
                     (let wbl = (edgeLength tree \<noteq> None);
                          el0 = (case edgeLength tree of None \<Rightarrow> [] | Some l \<Rightarrow> l);
                          rootEdge' = (if edgeLength tree = None then False else rootEdge0)
                      in case basal_singletons eng wbl rootEdge'
                                (n + 1, map fst es, map snd es, el0, Num 0) of
                           Inl err \<Rightarrow> Inl err
                         | Inr (ROOT, e1, e2, el, ROOTEDGE) \<Rightarrow>
                            (case tabulate eng e1 of
                               Inl err \<Rightarrow> Inl err
                             | Inr tabE1 \<Rightarrow>
                                (let singles = filter (\<lambda>i. i > n \<and> tabE1 ! i = 1) [0 ..< length tabE1];
                                     ii = rev (sort (List.map_filter (indexOf e1) singles));
                                     jj = map (\<lambda>idx. indexOf e2 (e1 ! idx)) ii;
                                     merged = foldl (merge_single wbl) (e2, el) (zip ii jj);
                                     e1a = foldl splice1 e1 ii;
                                     e2a = foldl splice1 (fst merged) ii;
                                     ela = (if wbl then foldl splice1 (snd merged) ii else snd merged);
                                     Nnode' = int (length e1a) - int n + 1;
                                     oldnodes = uniq e1a;
                                     nodeLabel' = (case nodeLabel tree of
                                        None \<Rightarrow> None
                                      | Some nl \<Rightarrow>
                                          Some (map (\<lambda>val. if val > n then js_get nl (val - n - 1)
                                                           else None) oldnodes))
                                 in case math_max eng oldnodes of
                                      Inl err \<Rightarrow> Inl err
                                    | Inr None \<Rightarrow> Inl RangeError
                                    | Inr (Some maxOld) \<Rightarrow>
                                      (case alloc eng maxOld of
                                         Some err \<Rightarrow> Inl err
                                       | None \<Rightarrow>
                                       (let newNb0 = replicate maxOld (Some 0);
                                            newNb1 = (if ROOT \<ge> 1 then js_set newNb0 (ROOT - 1) (Some (n + 1))
                                                      else newNb0);
                                            internalNodes = sort (uniq (filter (\<lambda>val. val > n) e2a));
                                            newNumbers = [n + 2 ..< nat (int n + Nnode') + 1];
                                            newNb = foldl (renumber_step newNumbers) newNb1
                                                      (zip [0 ..< length internalNodes] internalNodes);
                                            e2b = map (\<lambda>val. if val > n then js_get newNb (val - 1)
                                                             else Some val) e2a;
                                            e1b = map (\<lambda>val. if val \<ge> 1 then js_get newNb (val - 1)
                                                             else if ROOT = 0 then Some (n + 1)
                                                             else None) e1a
                                        in case (all_defined e1b, all_defined e2b) of
                                             (Some e1c, Some e2c) \<Rightarrow>
                                               Inr (Collapsed (tree
                                                 \<lparr> edge := map Some (zip e1c e2c),
                                                   edgeLength := (if wbl then Some ela else edgeLength tree),
                                                   nodeLabel := nodeLabel',
                                                   Nnode := Nnode',
                                                   rootEdge := (if wbl \<and> rootEdge' then Some ROOTEDGE
                                                                else rootEdge tree) \<rparr>))
                                           | _ \<Rightarrow> Inr Undefined_ids))))))))"


section \<open>dist-topo.js\<close>

text \<open>
  \<^verbatim>\<open>
  function bipartition2(orig, nTips) {
    const parent = orig.map(row => row[0]);
    const children = orig.map(row => row[1]);
    const m = Math.max(...parent);
    const nnode = m - nTips;
    const out = new Array(nnode).fill(null).map(() => []);
    for (let i = 0; i < parent.length; i++) {
      const j = parent[i] - nTips - 1;
      if (children[i] > nTips) {
        const y = out[children[i] - nTips - 1];
        out[j] = out[j].concat(y);
      } else {
        out[j].push(children[i]);
      }
    }
    for (let i = 0; i < nnode; i++) {
      out[i].sort((a, b) => a - b);
    }
    return out;
  }
  \<close>
  \<^verbatim>\<open>out[j]\<close> is \<^verbatim>\<open>undefined\<close> when \<open>j\<close> is negative, and the call of \<^verbatim>\<open>concat\<close> or
  \<^verbatim>\<open>push\<close> on it throws a \<^verbatim>\<open>TypeError\<close>.  \<^verbatim>\<open>y\<close> is \<^verbatim>\<open>undefined\<close> when the child
  is above every parent, and \<^verbatim>\<open>concat(undefined)\<close> appends \<^verbatim>\<open>undefined\<close> as an
  element; \<^verbatim>\<open>sort\<close> puts such elements last.  A clade is a list of tip numbers and
  \<^verbatim>\<open>undefined\<close>s.
\<close>

definition sort_clade :: "nat option list \<Rightarrow> nat option list" where
  "sort_clade xs = map Some (sort (List.map_filter id xs)) @ filter (\<lambda>x. x = None) xs"

definition bipartition_step ::
  "nat \<Rightarrow> error + nat option list list \<Rightarrow> nat \<times> nat \<Rightarrow> error + nat option list list" where
  "bipartition_step nTips acc e =
     (case acc of
        Inl err \<Rightarrow> Inl err
      | Inr out \<Rightarrow>
          (let parent = fst e; child = snd e
           in if parent \<le> nTips \<or> parent - nTips - 1 \<ge> length out then Inl TypeError
              else
               (let j = parent - nTips - 1
                in if child > nTips
                   then (let y = js_nth out (child - nTips - 1)
                         in Inr (out[j := out ! j @ (case y of None \<Rightarrow> [None] | Some c \<Rightarrow> c)]))
                   else Inr (out[j := out ! j @ [Some child]]))))"

definition bipartition2 :: "engine \<Rightarrow> row list \<Rightarrow> nat \<Rightarrow> error + nat option list list" where
  "bipartition2 eng orig nTips =
     (case rows_of orig of
        Inl err \<Rightarrow> Inl err
      | Inr es \<Rightarrow>
         (case math_max eng (map fst es) of
            Inl err \<Rightarrow> Inl err
          | Inr None \<Rightarrow> Inl RangeError
          | Inr (Some m) \<Rightarrow>
              if m < nTips then Inl RangeError
              else (let nnode = m - nTips
                    in case alloc eng nnode of
                         Some err \<Rightarrow> Inl err
                       | None \<Rightarrow>
                        (case foldl (bipartition_step nTips) (Inr (replicate nnode [])) es of
                           Inl err \<Rightarrow> Inl err
                         | Inr out \<Rightarrow> Inr (map sort_clade out)))))"

text \<open>
  \<^verbatim>\<open>
  function propPart2(trees, nTips) {
    const nbtree = trees.length;
    const M = trees[0];
    const E = M.edge;
    let ans = bipartition2(E, nTips);
    let no = ans.map(() => 1);
    if (no.length > 0) {
      no[0] = nbtree;
    }
    for (let k = 1; k < nbtree; k++) {
      const tmpTree = trees[k];
      const tmpE = tmpTree.edge;
      const bp = bipartition2(tmpE, nTips);
      for (let i = 1; i < bp.length; i++) {
        let found = false;
        for (let j = 1; j < ans.length; j++) {
          if (arrayEquals(bp[i], ans[j])) {
            no[j]++;
            found = true;
            break;
          }
        }
        if (!found) {
          ans.push(bp[i]);
          no.push(1);
        }
      }
    }
    return { partitions: ans, number: no, class: "prop.part" };
  }

  function propPart(tre) {
    let trees = Array.isArray(tre) ? tre.slice() : [tre];
    trees = trees.map(t => reorder(t, "postorder"));
    const nTips = trees[0].tipLabel.length;
    const clades = propPart2(trees, nTips);
    clades.labels = trees[0].tipLabel;
    return clades;
  }
  \<close>
  \<open>count_clade\<close> is the body of the loop over \<open>i\<close>, \<open>count_tree\<close> the body of the loop
  over \<open>k\<close>.  The argument of \<open>propPart\<close> is the list of trees, a single tree being the
  list of one; \<^verbatim>\<open>trees[0]\<close> is \<^verbatim>\<open>undefined\<close> for the empty list and reading its field
  throws a \<^verbatim>\<open>TypeError\<close>.
\<close>

record prop_part =
  partitions :: "nat option list list"
  number :: "nat list"
  labels :: "string list"

definition count_clade ::
  "nat option list list \<times> nat list \<Rightarrow> nat option list \<Rightarrow> nat option list list \<times> nat list" where
  "count_clade reg c =
     (let ans = fst reg; no = snd reg
      in case indexOf (tl ans) c of
           Some j' \<Rightarrow> (ans, no[Suc j' := no ! Suc j' + 1])
         | None \<Rightarrow> (ans @ [c], no @ [1]))"

definition count_tree ::
  "engine \<Rightarrow> nat \<Rightarrow> error + nat option list list \<times> nat list \<Rightarrow> 'l phylo \<Rightarrow>
   error + nat option list list \<times> nat list" where
  "count_tree eng nTips acc tmpTree =
     (case acc of
        Inl err \<Rightarrow> Inl err
      | Inr reg \<Rightarrow>
          (case bipartition2 eng (edge tmpTree) nTips of
             Inl err \<Rightarrow> Inl err
           | Inr bp \<Rightarrow> Inr (foldl count_clade reg (tl bp))))"

definition propPart2 ::
  "engine \<Rightarrow> 'l phylo list \<Rightarrow> nat \<Rightarrow> error + nat option list list \<times> nat list" where
  "propPart2 eng trees nTips =
     (case trees of
        [] \<Rightarrow> Inl TypeError
      | M # rest \<Rightarrow>
          (let nbtree = length trees
           in case bipartition2 eng (edge M) nTips of
                Inl err \<Rightarrow> Inl err
              | Inr ans \<Rightarrow>
                  (let no = map (\<lambda>_. 1) ans;
                       no' = (if length no > 0 then no[0 := nbtree] else no)
                   in foldl (count_tree eng nTips) (Inr (ans, no')) rest)))"

fun reorder_all :: "engine \<Rightarrow> 'l phylo list \<Rightarrow> error + 'l phylo list" where
  "reorder_all eng [] = Inr []"
| "reorder_all eng (t # ts) =
     (case reorder eng t ''postorder'' False of
        Inl err \<Rightarrow> Inl err
      | Inr (Index idx) \<Rightarrow> Inl TypeError
      | Inr (Phylo t') \<Rightarrow>
          (case reorder_all eng ts of
             Inl err \<Rightarrow> Inl err
           | Inr ts' \<Rightarrow> Inr (t' # ts')))"

definition propPart :: "engine \<Rightarrow> 'l phylo list \<Rightarrow> error + prop_part" where
  "propPart eng tre =
     (case reorder_all eng tre of
        Inl err \<Rightarrow> Inl err
      | Inr trees \<Rightarrow>
          (case trees of
             [] \<Rightarrow> Inl TypeError
           | t0 # _ \<Rightarrow>
               (let nTips = length (tipLabel t0)
                in case propPart2 eng trees nTips of
                     Inl err \<Rightarrow> Inl err
                   | Inr clades \<Rightarrow>
                       Inr \<lparr> partitions = fst clades, number = snd clades,
                             labels = tipLabel t0 \<rparr>)))"

section \<open>Notions of the specification and example trees\<close>

text \<open>
  The degree of a node is the number of edge ends at it: the rows in which it is the parent
  plus the rows in which it is the child.
\<close>

definition degree :: "row list \<Rightarrow> nat \<Rightarrow> nat" where
  "degree rs v = length (filter (\<lambda>r. map_option fst r = Some v) rs) +
                 length (filter (\<lambda>r. map_option snd r = Some v) rs)"

text \<open>
  The trees \<^verbatim>\<open>(A,B,C);\<close>, \<^verbatim>\<open>(A,B);\<close>, a chain of three edges down to the single tip
  \<^verbatim>\<open>A\<close>, and \<^verbatim>\<open>(A:1,(B:3,C:4)bc:2)r;\<close>, as the parser numbers them.
\<close>

definition star3 :: "int phylo" where
  "star3 = \<lparr> edge = [Some (4, 1), Some (4, 2), Some (4, 3)], edgeLength = None,
             tipLabel = [''A'', ''B'', ''C''], nodeLabel = None, Nnode = 1,
             rootEdge = None, order = None \<rparr>"

definition cherry :: "int phylo" where
  "cherry = \<lparr> edge = [Some (3, 1), Some (3, 2)], edgeLength = None,
             tipLabel = [''A'', ''B''], nodeLabel = None, Nnode = 1,
             rootEdge = None, order = None \<rparr>"

definition chain :: "int phylo" where
  "chain = \<lparr> edge = [Some (2, 3), Some (3, 4), Some (4, 1)], edgeLength = None,
             tipLabel = [''A''], nodeLabel = None, Nnode = 3,
             rootEdge = None, order = None \<rparr>"

definition tree_ABC :: "int phylo" where
  "tree_ABC = \<lparr> edge = [Some (4, 1), Some (4, 5), Some (5, 2), Some (5, 3)],
                edgeLength = Some [Some (Num 1), Some (Num 2), Some (Num 3), Some (Num 4)],
                tipLabel = [''A'', ''B'', ''C''], nodeLabel = Some [Some ''r'', Some ''bc''],
                Nnode = 2, rootEdge = None, order = None \<rparr>"

text \<open>
  The last tree with its rows as \<^verbatim>\<open>reorder\<close> to postorder leaves them.
\<close>

definition tree_ABC_postorder :: "int phylo" where
  "tree_ABC_postorder =
     tree_ABC \<lparr> edge := [Some (5, 3), None, Some (4, 5), Some (5, 2)],
                edgeLength := Some [Some (Num 4), None, Some (Num 2), Some (Num 3)],
                order := Some ''postorder'' \<rparr>"

text \<open>
  A chain of one edge down to the single tip \<^verbatim>\<open>A\<close>, which is what the parser makes of
  \<^verbatim>\<open>(A);\<close>; and \<^verbatim>\<open>(A,(B,C));\<close> with its rows in postorder and the tag that says so.
\<close>

definition tipA :: "int phylo" where
  "tipA = \<lparr> edge = [Some (2, 1)], edgeLength = None, tipLabel = [''A''],
            nodeLabel = Some [Some ''''], Nnode = 1, rootEdge = None, order = None \<rparr>"

definition post_ABC :: "int phylo" where
  "post_ABC = \<lparr> edge = [Some (5, 2), Some (5, 3), Some (4, 1), Some (4, 5)],
                edgeLength = None, tipLabel = [''A'', ''B'', ''C''], nodeLabel = None,
                Nnode = 2, rootEdge = None, order = Some ''postorder'' \<rparr>"

text \<open>
  The invariants of the data model.  With \<open>n\<close> tips and \<open>Nnode\<close> internal nodes the
  nodes are \<open>1..n + Nnode\<close> and the root is \<open>n + 1\<close>.  Every row is a pair; there are
  \<open>n + Nnode - 1\<close> rows; from every node the root is reached by going from child to
  parent (the edge set is connected and has no cycle); every node but the root is the child
  of exactly one row and the root of none; no tip is a parent.
\<close>

primrec climbs :: "(nat \<times> nat) list \<Rightarrow> nat \<Rightarrow> nat \<Rightarrow> nat \<Rightarrow> bool" where
  "climbs es root 0 v = (v = root)"
| "climbs es root (Suc k) v =
     (v = root \<or> (case find (\<lambda>e. snd e = v) es of
                     None \<Rightarrow> False
                   | Some e \<Rightarrow> climbs es root k (fst e)))"

definition valid :: "'l phylo \<Rightarrow> bool" where
  "valid t =
     (let n = length (tipLabel t);
          es = List.map_filter id (edge t);
          nodes = [1 ..< n + nat (Nnode t) + 1]
      in list_all (\<lambda>r. r \<noteq> None) (edge t) \<and>
         1 \<le> Nnode t \<and>
         int (length (edge t)) = int n + Nnode t - 1 \<and>
         list_all (\<lambda>v. climbs es (n + 1) (length es) v) nodes \<and>
         list_all (\<lambda>v. count_list (map snd es) v = (if v = n + 1 then 0 else 1)) nodes \<and>
         list_all (\<lambda>e. fst e > n) es)"


section \<open>Properties of \<open>tabulate\<close>\<close>

lemma maximum_None: "maximum xs = None \<longleftrightarrow> xs = []"
  by (cases xs) (auto split: option.splits)

lemma maximum_Max: "xs \<noteq> [] \<Longrightarrow> maximum xs = Some (Max (set xs))"
proof (induction xs)
  case Nil
  then show ?case by simp
next
  case (Cons x xs)
  show ?case
  proof (cases "xs = []")
    case True
    then show ?thesis by simp
  next
    case False
    with Cons.IH have "maximum xs = Some (Max (set xs))" by simp
    with False show ?thesis by simp
  qed
qed

lemma maximum_ge: "maximum xs = Some m \<Longrightarrow> x \<in> set xs \<Longrightarrow> x \<le> m"
  by (cases "xs = []") (auto simp: maximum_Max)

lemma count_loop_length: "length (foldl tabulate_step cs arr) = length cs"
  by (induction arr arbitrary: cs) (auto simp: tabulate_step_def)

lemma count_loop_nth:
  "i < length cs \<Longrightarrow> foldl tabulate_step cs arr ! i = cs ! i + count_list arr i"
proof (induction arr arbitrary: cs)
  case Nil
  then show ?case by simp
next
  case (Cons a arr)
  have "i < length (tabulate_step cs a)"
    using Cons.prems by (simp add: tabulate_step_def)
  from Cons.IH [OF this] show ?case
    using Cons.prems by (cases "a = i") (auto simp: nth_list_update tabulate_step_def)
qed

lemma alloc_None: "k \<le> 4294967295 \<Longrightarrow> k \<le> max_length eng \<Longrightarrow> alloc eng k = None"
proof -
  assume "k \<le> 4294967295" and l: "k \<le> max_length eng"
  then have "\<not> int k > 4294967295" by linarith
  with l show ?thesis by (simp add: alloc_def)
qed

lemma alloc_Some: "k > 4294967295 \<or> k > max_length eng \<Longrightarrow> \<exists>err. alloc eng k = Some err"
  unfolding alloc_def by (cases "int k > 4294967295") auto

lemma tabulate_within:
  assumes "arr \<noteq> []" "length arr \<le> max_args eng" "Max (set arr) + 1 \<le> 4294967295"
    "Max (set arr) + 1 \<le> max_length eng"
  shows "tabulate eng arr = Inr (foldl tabulate_step (replicate (Max (set arr) + 1) 0) arr)"
proof -
  have m: "math_max eng arr = Inr (Some (Max (set arr)))"
    using assms(1,2) by (simp add: math_max_def maximum_Max)
  have a: "alloc eng (Max (set arr) + 1) = None"
    using assms(3,4) by (rule alloc_None)
  show ?thesis
    using m a by (simp add: tabulate_def)
qed

lemma tabulate_beyond:
  assumes "length arr > max_args eng \<or>
     (arr \<noteq> [] \<and> (Max (set arr) + 1 > 4294967295 \<or> Max (set arr) + 1 > max_length eng))"
  shows "\<exists>err. tabulate eng arr = Inl err"
proof (cases "length arr > max_args eng")
  case True
  then show ?thesis by (simp add: tabulate_def math_max_def)
next
  case False
  with assms have ne: "arr \<noteq> []"
    and big: "Max (set arr) + 1 > 4294967295 \<or> Max (set arr) + 1 > max_length eng" by auto
  have m: "math_max eng arr = Inr (Some (Max (set arr)))"
    using ne False by (simp add: math_max_def maximum_Max)
  from alloc_Some [OF big] obtain err where a: "alloc eng (Max (set arr) + 1) = Some err"
    by blast
  show ?thesis
    using m a by (simp add: tabulate_def)
qed

text \<open>
  Claim C10, as stated, fails: not every non-empty sequence of positive integers gets a
  count table.  No array is longer than \<open>2^32 - 1\<close>, so on the sequence of the one
  number \<open>4294967295\<close> the call \<^verbatim>\<open>new Array(4294967296)\<close> throws a \<^verbatim>\<open>RangeError\<close>,
  whatever the engine; and on a sequence with more elements than a call takes arguments,
  here three for an engine that takes two, \<^verbatim>\<open>Math.max(...arr)\<close> throws.
\<close>

theorem tabulate_nonempty_throws:
  "(\<forall>eng. tabulate eng [4294967295] = Inl RangeError) \<and>
   (\<forall>d l. tabulate \<lparr> max_depth = d, max_args = 2, max_length = l \<rparr> [1, 1, 1] =
      Inl RangeError)"
  by (simp add: tabulate_def math_max_def alloc_def)

text \<open>
  Claim C10, amended.  \<open>tabulate\<close> needs a non-empty input within the limits of the
  engine.  On the empty sequence it throws (the maximum of no numbers is not an array
  length).  On a non-empty sequence with no more elements than a call takes arguments and
  with \<open>max + 1\<close> a length the language allows and the engine can fill, it returns an
  array of length \<open>max + 1\<close> whose entry \<open>i\<close> is the number of occurrences of \<open>i\<close> in the
  input, hence \<open>0\<close> for an id that does not occur.  On every other sequence it fails.
\<close>

theorem tabulate_counts:
  "tabulate eng [] = Inl RangeError \<and>
   (arr \<noteq> [] \<and> length arr \<le> max_args eng \<and> Max (set arr) + 1 \<le> 4294967295 \<and>
    Max (set arr) + 1 \<le> max_length eng \<longrightarrow>
     (\<exists>counts. tabulate eng arr = Inr counts \<and> length counts = Max (set arr) + 1 \<and>
        (\<forall>i < length counts. counts ! i = count_list arr i))) \<and>
   (length arr' > max_args eng \<or>
    (arr' \<noteq> [] \<and> (Max (set arr') + 1 > 4294967295 \<or> Max (set arr') + 1 > max_length eng)) \<longrightarrow>
     (\<exists>err. tabulate eng arr' = Inl err))"
proof (intro conjI impI)
  show "tabulate eng [] = Inl RangeError" by (simp add: tabulate_def math_max_def)
next
  assume h: "arr \<noteq> [] \<and> length arr \<le> max_args eng \<and> Max (set arr) + 1 \<le> 4294967295 \<and>
    Max (set arr) + 1 \<le> max_length eng"
  let ?c = "foldl tabulate_step (replicate (Max (set arr) + 1) 0) arr"
  have "tabulate eng arr = Inr ?c" using h by (intro tabulate_within) simp_all
  moreover have len: "length ?c = Max (set arr) + 1"
    by (simp only: count_loop_length length_replicate)
  moreover have "\<forall>i < length ?c. ?c ! i = count_list arr i"
  proof (intro allI impI)
    fix i
    assume "i < length ?c"
    then have i: "i < length (replicate (Max (set arr) + 1) (0::nat))"
      by (simp only: count_loop_length)
    have z: "replicate (Max (set arr) + 1) (0::nat) ! i = 0"
      using i by (simp only: length_replicate nth_replicate)
    from count_loop_nth [OF i, of arr] show "?c ! i = count_list arr i"
      by (simp only: z add_0)
  qed
  ultimately show "\<exists>counts. tabulate eng arr = Inr counts \<and> length counts = Max (set arr) + 1 \<and>
        (\<forall>i < length counts. counts ! i = count_list arr i)"
    by blast
next
  assume "length arr' > max_args eng \<or>
    (arr' \<noteq> [] \<and> (Max (set arr') + 1 > 4294967295 \<or> Max (set arr') + 1 > max_length eng))"
  then show "\<exists>err. tabulate eng arr' = Inl err" by (rule tabulate_beyond)
qed

theorem tabulate_counts_witness:
  "tabulate \<lparr> max_depth = 0, max_args = 4, max_length = 6 \<rparr> [] = Inl RangeError \<and>
   tabulate \<lparr> max_depth = 0, max_args = 4, max_length = 6 \<rparr> [4, 4, 5, 5] =
     Inr [0, 0, 0, 0, 2, 2] \<and>
   (\<exists>err. tabulate \<lparr> max_depth = 0, max_args = 4, max_length = 6 \<rparr> [6] = Inl err)"
proof -
  let ?eng = "\<lparr> max_depth = 0, max_args = 4, max_length = 6 \<rparr>"
  have "tabulate ?eng [4, 4, 5, 5] = Inr [0, 0, 0, 0, 2, 2]"
    by (simp add: tabulate_def math_max_def alloc_def)
      (simp add: tabulate_step_def numeral_nat)
  with tabulate_counts [of ?eng "[4, 4, 5, 5]" "[6]"] show ?thesis by simp
qed


section \<open>Properties of \<open>isRooted\<close>, \<open>unrootPhylo\<close> and \<open>dropTip\<close>\<close>


lemma rows_of_Inr: "rows_of rs = Inr es \<Longrightarrow> rs = map Some es"
proof (induction rs arbitrary: es rule: rows_of.induct)
  case 1 then show ?case by simp
next
  case (2 rs) then show ?case by simp
next
  case (3 e rs) then show ?case by (auto split: sum.splits)
qed

lemma rows_of_map_Some: "rows_of (map Some es) = Inr es"
  by (induction es) auto

lemma parentCounts_count:
  "(case foldl parentCounts_step m es k of None \<Rightarrow> 0 | Some c \<Rightarrow> c) =
   (case m k of None \<Rightarrow> 0 | Some c \<Rightarrow> c) + length (filter (\<lambda>e. fst e = k) es)"
  by (induction es arbitrary: m) (auto simp: parentCounts_step_def)

lemma isRooted_ntips:
  "rows_of (edge phy) = Inr es \<Longrightarrow>
   isRooted phy (Some n) =
     Inr (rootEdge phy \<noteq> None \<or> length (filter (\<lambda>e. fst e = n + 1) es) \<le> 2)"
  using parentCounts_count [of Map.empty es "n + 1"]
  by (auto simp: isRooted_def Let_def)

lemma isRooted_no_ntips: "rows_of (edge phy) = Inr es \<Longrightarrow> isRooted phy None = Inr True"
  by (simp add: isRooted_def)

text \<open>
  Claim C8.  \<^verbatim>\<open>isRooted(tree)\<close> should be true exactly when \<^verbatim>\<open>rootEdge\<close> is set or the
  root \<open>n + 1\<close>, with \<open>n\<close> the number of tips, is the parent of at most two edges.  The
  function does not take \<open>n\<close> from the tree: it is its second parameter.  With \<open>n\<close>
  passed, the claim holds (\<open>isRooted_ntips\<close>); called with the tree alone, as the default
  \<^verbatim>\<open>rooted = isRooted(phy)\<close> of \<^verbatim>\<open>dropTip\<close> calls it, it answers true for every tree
  (\<open>isRooted_no_ntips\<close>).  On the star tree \<^verbatim>\<open>(A,B,C);\<close>, which has no root edge and
  whose root \<open>4\<close> is the parent of three edges, the call with the tree alone returns true,
  and the call with \<open>n = 3\<close> returns false.
\<close>

theorem isRooted_without_ntips_star:
  "isRooted star3 None = Inr True \<and> rootEdge star3 = None \<and> length (tipLabel star3) = 3 \<and>
   length (filter (\<lambda>r. map_option fst r = Some 4) (edge star3)) = 3 \<and>
   isRooted star3 (Some 3) = Inr False"
  by (simp add: star3_def isRooted_def parentCounts_step_def)

lemma dgr_step_length: "length (dgr_step T dgr e) = length dgr"
  by (simp add: dgr_step_def Let_def)

lemma dgr_loop_length: "length (foldl (dgr_step T) dgr es) = length dgr"
  by (induction es arbitrary: dgr) (auto simp: dgr_step_length)

lemma dgr_step_nth:
  "i < length dgr \<Longrightarrow> int (length dgr) = T \<Longrightarrow>
   dgr_step T dgr e ! i =
     dgr ! i + (if fst e = i + 1 then 1 else 0) + (if snd e = i + 1 then 1 else 0)"
  by (cases e) (auto simp: dgr_step_def Let_def nth_list_update)

lemma dgr_loop_nth:
  "i < length dgr \<Longrightarrow> int (length dgr) = T \<Longrightarrow>
   foldl (dgr_step T) dgr es ! i =
     dgr ! i + length (filter (\<lambda>e. fst e = i + 1) es) + length (filter (\<lambda>e. snd e = i + 1) es)"
proof (induction es arbitrary: dgr)
  case Nil
  then show ?case by simp
next
  case (Cons e es)
  have l: "i < length (dgr_step T dgr e)" "int (length (dgr_step T dgr e)) = T"
    using Cons.prems by (simp_all add: dgr_step_length)
  show ?case
    using Cons.IH [OF l] dgr_step_nth [OF Cons.prems, of e] by auto
qed

lemma degree_map_Some:
  "degree (map Some es) v =
     length (filter (\<lambda>e. fst e = v) es) + length (filter (\<lambda>e. snd e = v) es)"
  by (induction es) (auto simp: degree_def)

text \<open>
  Claim C7.  \<^verbatim>\<open>unrootPhylo\<close> throws on every tree with fewer than three edges (with the
  message for a tree that is too small when \<^verbatim>\<open>collapseSinglesFlag\<close> is off); it throws
  on every tree in which no node has degree three or more (with the message for constant
  degree when the tree has three edges, no \<^verbatim>\<open>undefined\<close> row and \<^verbatim>\<open>n + Nnode\<close> is a
  length); and it returns the tree it was given when that tree is not rooted, that is
  when \<^verbatim>\<open>isRooted(phy, n)\<close> is false, and has at least one internal node.
\<close>

theorem unrootPhylo_guards:
  "(length (edge phy1) < 3 \<longrightarrow>
      (\<exists>err. unrootPhylo_head phy1 n1 c1 k1 = Inl err) \<and>
      unrootPhylo_head phy1 n1 False k1 =
        Inl (Error ''cannot unroot a tree with less than three edges.'')) \<and>
   ((\<forall>v. degree (edge phy2) v < 3) \<longrightarrow>
      (\<exists>err. unrootPhylo_head phy2 n2 c2 k2 = Inl err) \<and>
      (length (edge phy2) \<ge> 3 \<and> n2 = Some m2 \<and> 0 \<le> int m2 + Nnode phy2 \<and>
       list_all (\<lambda>r. r \<noteq> None) (edge phy2) \<longrightarrow>
         unrootPhylo_head phy2 n2 False k2 =
           Inl (Error ''cannot unroot a tree where all nodes are singleton''))) \<and>
   (isRooted phy3 (Some n3) = Inr False \<and> 1 \<le> Nnode phy3 \<longrightarrow>
      unrootPhylo_head phy3 (Some n3) False k3 = Inr (Return phy3))"
proof (intro conjI impI)
  assume "length (edge phy1) < 3"
  then show "\<exists>err. unrootPhylo_head phy1 n1 c1 k1 = Inl err"
    and "unrootPhylo_head phy1 n1 False k1 =
        Inl (Error ''cannot unroot a tree with less than three edges.'')"
    by (simp_all add: unrootPhylo_head_def)
next
  assume deg: "\<forall>v. degree (edge phy2) v < 3"
  have all: "list_all (\<lambda>count. count < 3) (foldl (dgr_step T) (replicate (nat T) 0) es)"
    if "rows_of (edge phy2) = Inr es" "0 \<le> T" for es T
  proof -
    let ?d = "foldl (dgr_step T) (replicate (nat T) 0) es"
    have e: "edge phy2 = map Some es" using that(1) by (rule rows_of_Inr)
    have "?d ! i < 3" if i: "i < length ?d" for i
    proof -
      have i': "i < length (replicate (nat T) (0::nat))"
        using i by (simp only: dgr_loop_length)
      have T: "int (length (replicate (nat T) (0::nat))) = T"
        using \<open>0 \<le> T\<close> by simp
      have "?d ! i = degree (edge phy2) (i + 1)"
        using dgr_loop_nth [OF i' T, of es] i' by (simp add: e degree_map_Some)
      with deg show ?thesis by simp
    qed
    then show ?thesis by (simp add: list_all_length)
  qed
  show "\<exists>err. unrootPhylo_head phy2 n2 c2 k2 = Inl err"
    using all by (auto simp: unrootPhylo_head_def Let_def split: option.splits sum.splits)
  show "unrootPhylo_head phy2 n2 False k2 =
           Inl (Error ''cannot unroot a tree where all nodes are singleton'')"
    if h: "length (edge phy2) \<ge> 3 \<and> n2 = Some m2 \<and> 0 \<le> int m2 + Nnode phy2 \<and>
       list_all (\<lambda>r. r \<noteq> None) (edge phy2)"
  proof -
    from h have "edge phy2 = map Some (map the (edge phy2))"
      by (auto simp: list_all_iff intro!: nth_equalityI)
    then have r: "rows_of (edge phy2) = Inr (map the (edge phy2))"
      using rows_of_map_Some by metis
    show ?thesis
      using h all [OF r] by (simp add: unrootPhylo_head_def Let_def r)
  qed
next
  assume h: "isRooted phy3 (Some n3) = Inr False \<and> 1 \<le> Nnode phy3"
  then have re: "rootEdge phy3 = None"
    by (auto simp: isRooted_def split: if_splits)
  from h re obtain es where es: "rows_of (edge phy3) = Inr es"
    by (auto simp: isRooted_def split: sum.splits)
  from h have cnt: "3 \<le> length (filter (\<lambda>e. fst e = n3 + 1) es)"
    using isRooted_ntips [OF es, of n3] re by simp
  have e: "edge phy3 = map Some es" using es by (rule rows_of_Inr)
  have "length (filter (\<lambda>e. fst e = n3 + 1) es) \<le> length es"
    by (rule length_filter_le)
  with cnt have len: "3 \<le> length (edge phy3)"
    unfolding e by (simp only: length_map)
  let ?T = "int n3 + Nnode phy3"
  let ?d = "foldl (dgr_step ?T) (replicate (nat ?T) 0) es"
  from h have nn: "1 \<le> Nnode phy3" by simp
  have i: "n3 < length (replicate (nat ?T) (0::nat))"
    using nn by (simp add: zless_nat_eq_int_zless)
  have T: "int (length (replicate (nat ?T) (0::nat))) = ?T" using nn by simp
  have "3 \<le> ?d ! n3"
    using dgr_loop_nth [OF i T, of es] cnt i by simp
  moreover have "n3 < length ?d" using i by (simp only: dgr_loop_length)
  ultimately have "\<not> list_all (\<lambda>count. count < 3) ?d"
    by (auto simp: list_all_length)
  then show "unrootPhylo_head phy3 (Some n3) False k3 = Inr (Return phy3)"
    using h len re es by (simp add: unrootPhylo_head_def Let_def)
qed


theorem unrootPhylo_guards_witness:
  "unrootPhylo_head cherry (Some 2) False False =
     Inl (Error ''cannot unroot a tree with less than three edges.'') \<and>
   unrootPhylo_head chain (Some 1) False False =
     Inl (Error ''cannot unroot a tree where all nodes are singleton'') \<and>
   unrootPhylo_head star3 (Some 3) False False = Inr (Return star3)"
proof -
  have a1: "length (edge cherry) < 3" by (simp add: cherry_def)
  have a2: "\<forall>v. degree (edge chain) v < 3" by (simp add: degree_def chain_def)
  have a3: "length (edge chain) \<ge> 3 \<and> Some (1::nat) = Some 1 \<and> 0 \<le> int 1 + Nnode chain \<and>
       list_all (\<lambda>r. r \<noteq> None) (edge chain)" by (simp add: chain_def)
  have a4: "isRooted star3 (Some 3) = Inr False \<and> 1 \<le> Nnode star3"
    by (simp add: star3_def isRooted_def parentCounts_step_def)
  show ?thesis
    using unrootPhylo_guards [of cherry "Some 2" False False chain "Some 1" False False 1
        star3 3 False] a1 a2 a3 a4
    by simp
qed






lemma rows_of_defined: "None \<notin> set rs \<Longrightarrow> \<exists>es. rows_of rs = Inr es"
proof (induction rs)
  case Nil
  then show ?case by simp
next
  case (Cons r rs)
  then show ?case by (cases r) auto
qed

lemma default_rooted:
  "None \<notin> set (edge phy) \<Longrightarrow>
   (case rooted of None \<Rightarrow> isRooted phy None | Some b \<Rightarrow> Inr b) =
   Inr (case rooted of None \<Rightarrow> True | Some b \<Rightarrow> b)"
  using rows_of_defined [of "edge phy"] isRooted_no_ntips [of phy]
  by (auto split: option.splits)















lemma findIndex_child_first:
  "None \<notin> set rs \<Longrightarrow> i < length rs \<Longrightarrow> rs ! i = Some (p, s) \<Longrightarrow>
   \<forall>j<i. \<forall>q. rs ! j \<noteq> Some (q, s) \<Longrightarrow>
   findIndex_child rs (Some s) = Inr (Some (i, p, s))"
proof (induction rs arbitrary: i)
  case Nil
  then show ?case by simp
next
  case (Cons r rs)
  from Cons.prems(1) obtain q c where r: "r = Some (q, c)" by (cases r) auto
  show ?case
  proof (cases i)
    case 0
    with Cons.prems(3) r show ?thesis by simp
  next
    case (Suc k)
    have "(r # rs) ! 0 \<noteq> Some (q, s)"
      using Cons.prems(4) Suc by blast
    then have cs: "c \<noteq> s" using r by simp
    have later: "\<forall>j<k. \<forall>q. rs ! j \<noteq> Some (q, s)"
    proof (intro allI impI)
      fix j q'
      assume "j < k"
      then have "Suc j < i" using Suc by simp
      with Cons.prems(4) have "(r # rs) ! Suc j \<noteq> Some (q', s)" by blast
      then show "rs ! j \<noteq> Some (q', s)" by simp
    qed
    have "findIndex_child rs (Some s) = Inr (Some (k, p, s))"
    proof (rule Cons.IH)
      show "None \<notin> set rs" using Cons.prems(1) by simp
      show "k < length rs" using Cons.prems(2) Suc by simp
      show "rs ! k = Some (p, s)" using Cons.prems(3) Suc by simp
      show "\<forall>j<k. \<forall>q. rs ! j \<noteq> Some (q, s)" by (rule later)
    qed
    then show ?thesis using r Suc cs by simp
  qed
qed

lemma filter_eq_upt: "filter (\<lambda>x. x = s) [a ..< b] = (if a \<le> s \<and> s < b then [s] else [])"
  by (induction b) auto

lemma remaining_single:
  assumes "set ts = {1..N} - {s}" "1 \<le> s" "s \<le> N"
  shows "filter (\<lambda>x. x \<notin> set ts) [1 ..< N + 1] = [s]"
proof -
  have "\<And>x. x \<in> set [1 ..< N + 1] \<Longrightarrow> (x \<notin> set ts) = (x = s)"
    unfolding assms(1) by auto
  then have "filter (\<lambda>x. x \<notin> set ts) [1 ..< N + 1] = filter (\<lambda>x. x = s) [1 ..< N + 1]"
    by (rule filter_cong [OF refl])
  also have "\<dots> = [s]"
    using assms(2,3) by (simp only: filter_eq_upt) simp
  finally show ?thesis .
qed

text \<open>
  Claim C3.  Let the tree have at least two tips, let \<^verbatim>\<open>tip\<close> resolve to all tips but
  \<open>s\<close>, each once, and let row \<open>i\<close> be the first row whose child is \<open>s\<close>, with parent
  \<open>p\<close>.  With \<^verbatim>\<open>trimInternal\<close> on, \<^verbatim>\<open>dropTip\<close> prints no warning and returns the tree
  of one internal node and one edge \<^verbatim>\<open>[2, 1]\<close>, whose tip label is the label of \<open>s\<close>,
  whose edge length (when the tree has lengths) is entry \<open>i\<close> of \<^verbatim>\<open>edgeLength\<close>, the
  length of that one edge, and whose node label (when the tree has node labels) is the
  label of \<open>p\<close>.
\<close>

theorem dropTip_all_but_one:
  assumes tip: "resolve_tip phy tip = Inr ts"
    and ts: "distinct ts" "set ts = {1..length (tipLabel phy)} - {s}"
    and s: "1 \<le> s" "s \<le> length (tipLabel phy)"
    and two: "2 \<le> length (tipLabel phy)"
    and rows: "None \<notin> set (edge phy)"
    and i: "i < length (edge phy)" "edge phy ! i = Some (p, s)"
      "\<forall>j<i. \<forall>q. edge phy ! j \<noteq> Some (q, s)"
  shows "dropTip_head phy tip True rooted =
    ([], Inr (Return (Tree
       \<lparr> edge = [Some (2, 1)],
         edgeLength = map_option (\<lambda>el. [js_get el i]) (edgeLength phy),
         tipLabel = [tipLabel phy ! (s - 1)],
         nodeLabel = map_option
           (\<lambda>nl. [if p > length (tipLabel phy) then js_get nl (p - length (tipLabel phy) - 1)
                  else None]) (nodeLabel phy),
         Nnode = 1, rootEdge = None, order = None \<rparr>)))"
proof -
  let ?N = "length (tipLabel phy)"
  have "card (set ts) = ?N - 1"
    using ts(2) s by simp
  then have len: "length ts = ?N - 1"
    using ts(1) distinct_card by metis
  have range: "filter (\<lambda>t. t > ?N) ts = []"
    using ts(2) by (auto simp: filter_empty_conv)
  have rem: "filter (\<lambda>x. x \<notin> set ts) [1 ..< ?N + 1] = [s]"
    using remaining_single [OF ts(2) s] .
  have f: "findIndex_child (edge phy) (Some s) = Inr (Some (i, p, s))"
    using findIndex_child_first [OF rows i] .
  have one: "dropTip_one_left phy ts =
    ([], Inr (Tree
       \<lparr> edge = [Some (2, 1)],
         edgeLength = map_option (\<lambda>el. [js_get el i]) (edgeLength phy),
         tipLabel = [tipLabel phy ! (s - 1)],
         nodeLabel = map_option
           (\<lambda>nl. [if p > length (tipLabel phy) then js_get nl (p - length (tipLabel phy) - 1)
                  else None]) (nodeLabel phy),
         Nnode = 1, rootEdge = None, order = None \<rparr>))"
    unfolding dropTip_one_left_def Let_def rem
    by (simp add: js_first_def f split: option.splits)
  show ?thesis
    unfolding dropTip_head_def Let_def default_rooted [OF rows] tip
    using len range two by (simp add: one)
qed

theorem dropTip_all_but_one_witness:
  "dropTip_head tree_ABC (Labels [''A'', ''B'']) True None =
    ([], Inr (Return (Tree
       \<lparr> edge = [Some (2, 1)], edgeLength = Some [Some (Num 4)], tipLabel = [''C''],
         nodeLabel = Some [Some ''bc''], Nnode = 1, rootEdge = None, order = None \<rparr>)))"
proof -
  have a: "resolve_tip tree_ABC (Labels [''A'', ''B'']) = Inr [1, 2]"
    by (simp add: resolve_labels_def tree_ABC_def)
  have b: "distinct [1, 2::nat]" by simp
  have c: "set [1, 2::nat] = {1..length (tipLabel tree_ABC)} - {3}"
    by (auto simp: tree_ABC_def)
  have d: "(1::nat) \<le> 3" "3 \<le> length (tipLabel tree_ABC)" "2 \<le> length (tipLabel tree_ABC)"
    "None \<notin> set (edge tree_ABC)" "3 < length (edge tree_ABC)"
    "edge tree_ABC ! 3 = Some (5, 3)" "\<forall>j<3. \<forall>q. edge tree_ABC ! j \<noteq> Some (q, 3)"
    by (simp_all add: tree_ABC_def less_Suc_eq numeral_3_eq_3)
  show ?thesis
    using dropTip_all_but_one [OF a b c d, of None]
    by (simp add: tree_ABC_def js_get_def)
qed


section \<open>Properties of \<open>reorder\<close> and \<open>collapseSingles\<close>\<close>

lemma tabulate_2:
  "tabulate \<lparr> max_depth = d, max_args = Suc a, max_length = 3 + l \<rparr> [2] = Inr [0, 0, 1]"
  by (simp add: tabulate_def math_max_def alloc_def tabulate_step_def numeral_3_eq_3)

lemma tabulate_Nil: "tabulate eng [] = Inl RangeError"
  by (simp add: tabulate_def math_max_def)

text \<open>
  Claim C5.  \<^verbatim>\<open>collapseSingles\<close> should be idempotent on every valid tree.  The tree
  \<^verbatim>\<open>(A);\<close>, one edge from the root \<open>2\<close> to the tip \<open>1\<close>, is valid, and on it the
  function does not return: the root has one child, the loop over basal singletons removes
  the only edge, and the next turn calls \<^verbatim>\<open>tabulate\<close> on the empty array, which throws a
  \<^verbatim>\<open>RangeError\<close>.  The function returns early for no tip (\<^verbatim>\<open>n === 0\<close>) but not for one,
  as \<^verbatim>\<open>reorder\<close> does (\<^verbatim>\<open>n < 2\<close>).  The engine is any that takes one argument and
  fills an array of length three.
\<close>

theorem collapseSingles_single_tip_throws:
  "valid tipA \<and>
   collapseSingles \<lparr> max_depth = d, max_args = Suc a, max_length = 3 + l \<rparr> tipA rootEdge0 =
     Inl RangeError"
proof
  let ?eng = "\<lparr> max_depth = d, max_args = Suc a, max_length = 3 + l \<rparr>"
  show "valid tipA" by code_simp
  have r: "reorder ?eng tipA ''cladewise'' False = Inr (Phylo tipA)"
    by (simp add: reorder_def tipA_def)
  have b: "basal_singletons ?eng False False (Suc (Suc 0), [2], [Suc 0], [], Num (0::int)) =
      Inl RangeError"
    by (simp add: basal_singletons.simps tabulate_2 tabulate_Nil js_nth_def splice1_def)
  show "collapseSingles ?eng tipA rootEdge0 = Inl RangeError"
    unfolding collapseSingles_def r
    by (simp add: tipA_def tabulate_2 b)
qed

text \<open>
  Claim C1.  \<^verbatim>\<open>reorder\<close> should return a permutation of the edge indices for both
  orders.  For postorder, \<^verbatim>\<open>bar_reorderRcpp\<close> stores \<^verbatim>\<open>L[xi[i] + j] + 1\<close>, an index
  that counts from one, and \<^verbatim>\<open>_reorder_ape\<close> uses it as one that counts from zero.  On
  \<^verbatim>\<open>(A,(B,C));\<close> with the rows \<open>(4,1), (4,5), (5,2), (5,3)\<close> the indices returned are
  \<open>3, 4, 1, 2\<close>, no permutation of \<open>0, 1, 2, 3\<close>; the tree returned has lost the row
  \<open>(4,1)\<close> and its length and holds \<^verbatim>\<open>undefined\<close> in their place; and reordering that
  tree to cladewise throws a \<^verbatim>\<open>TypeError\<close>.  For cladewise, \<^verbatim>\<open>foo_reorderRcpp\<close> stores
  the index itself, and the indices returned on this tree are \<open>0, 1, 2, 3\<close>.  The engine
  is any that allows a call depth of two, four arguments and an array of length four.
\<close>

theorem reorder_postorder_indices:
  "reorder \<lparr> max_depth = Suc (Suc d), max_args = 4 + a, max_length = 4 + l \<rparr>
      tree_ABC ''postorder'' True = Inr (Index [3, 4, 1, 2]) \<and>
   mset [3, 4, 1, 2] \<noteq> mset [0 ..< length (edge tree_ABC)] \<and>
   reorder \<lparr> max_depth = Suc (Suc d), max_args = 4 + a, max_length = 4 + l \<rparr>
      tree_ABC ''postorder'' False = Inr (Phylo tree_ABC_postorder) \<and>
   mset (edge tree_ABC_postorder) \<noteq> mset (edge tree_ABC) \<and>
   reorder eng' tree_ABC_postorder ''cladewise'' False = Inl TypeError \<and>
   reorder \<lparr> max_depth = Suc (Suc d), max_args = 4 + a, max_length = 4 + l \<rparr>
      tree_ABC ''cladewise'' True = Inr (Index [0, 1, 2, 3])"
proof (intro conjI)
  let ?eng = "\<lparr> max_depth = Suc (Suc d), max_args = 4 + a, max_length = 4 + l \<rparr>"
  show "reorder ?eng tree_ABC ''postorder'' True = Inr (Index [3, 4, 1, 2])"
    apply (simp add: reorder_def reorder_ape_def reorderRcpp_def math_max_def alloc_def
        tree_ABC_def)
    apply (simp add: xj_step_def xi_step_def L_step_def bucket_size_def bar_write_def upt_rec
        numeral_nat)
    done
  show "mset [3, 4, 1, 2] \<noteq> mset [0 ..< length (edge tree_ABC)]"
  proof
    assume "mset [3, 4, 1, 2] = mset [0 ..< length (edge tree_ABC)]"
    then have "set [3, 4, 1, 2] = set [0 ..< length (edge tree_ABC)]"
      by (rule mset_eq_setD)
    moreover have "(4::nat) \<in> set [3, 4, 1, 2]" by simp
    moreover have "(4::nat) \<notin> set [0 ..< length (edge tree_ABC)]"
      by (simp add: tree_ABC_def)
    ultimately show False by blast
  qed
  show "reorder ?eng tree_ABC ''postorder'' False = Inr (Phylo tree_ABC_postorder)"
    apply (simp add: reorder_def reorder_ape_def reorderRcpp_def math_max_def alloc_def
        tree_ABC_postorder_def tree_ABC_def)
    apply (simp add: xj_step_def xi_step_def L_step_def bucket_size_def bar_write_def js_get_def
        upt_rec numeral_nat)
    done
  show "mset (edge tree_ABC_postorder) \<noteq> mset (edge tree_ABC)"
  proof
    assume "mset (edge tree_ABC_postorder) = mset (edge tree_ABC)"
    then have "set (edge tree_ABC_postorder) = set (edge tree_ABC)"
      by (rule mset_eq_setD)
    moreover have "None \<in> set (edge tree_ABC_postorder)"
      by (simp add: tree_ABC_postorder_def)
    moreover have "None \<notin> set (edge tree_ABC)"
      by (simp add: tree_ABC_def)
    ultimately show False by blast
  qed
  show "reorder eng' tree_ABC_postorder ''cladewise'' False = Inl TypeError"
    by (simp add: reorder_def reorder_ape_def reorderRcpp_def tree_ABC_postorder_def tree_ABC_def)
  show "reorder ?eng tree_ABC ''cladewise'' True = Inr (Index [0, 1, 2, 3])"
    apply (simp add: reorder_def reorder_ape_def reorderRcpp_def math_max_def alloc_def
        tree_ABC_def)
    apply (simp add: xj_step_def xi_step_def L_step_def bucket_size_def upt_rec numeral_nat)
    done
qed

text \<open>
  Claim C2.  An operation of the engine that returns a tree should return a valid one.
  \<^verbatim>\<open>(A,(B,C));\<close> is valid, and \<^verbatim>\<open>reorder\<close> to postorder returns for it a tree that is
  not: a row is \<^verbatim>\<open>undefined\<close>, and tip \<open>1\<close> is the child of no row.
\<close>

theorem reorder_postorder_invalid:
  "valid tree_ABC \<and>
   reorder \<lparr> max_depth = Suc (Suc d), max_args = 4 + a, max_length = 4 + l \<rparr>
      tree_ABC ''postorder'' False = Inr (Phylo tree_ABC_postorder) \<and>
   \<not> valid tree_ABC_postorder \<and>
   None \<in> set (edge tree_ABC_postorder) \<and>
   count_list (map (map_option snd) (edge tree_ABC_postorder)) (Some 1) = 0"
proof (intro conjI)
  let ?eng = "\<lparr> max_depth = Suc (Suc d), max_args = 4 + a, max_length = 4 + l \<rparr>"
  show "valid tree_ABC" by code_simp
  show "reorder ?eng tree_ABC ''postorder'' False = Inr (Phylo tree_ABC_postorder)"
    apply (simp add: reorder_def reorder_ape_def reorderRcpp_def math_max_def alloc_def
        tree_ABC_postorder_def tree_ABC_def)
    apply (simp add: xj_step_def xi_step_def L_step_def bucket_size_def bar_write_def js_get_def
        upt_rec numeral_nat)
    done
  show "\<not> valid tree_ABC_postorder"
    by (simp add: valid_def tree_ABC_postorder_def)
  show "None \<in> set (edge tree_ABC_postorder)"
    by (simp add: tree_ABC_postorder_def)
  show "count_list (map (map_option snd) (edge tree_ABC_postorder)) (Some 1) = 0"
    by (simp add: tree_ABC_postorder_def)
qed

section \<open>Properties of \<open>propPart\<close>\<close>

text \<open>
  Claim C6.  For a list of \<open>k\<close> trees \<^verbatim>\<open>propPart\<close> should return counts, the first of
  them \<open>k\<close> and the others between \<open>1\<close> and \<open>k\<close>.  It first reorders every tree to
  postorder.  \<^verbatim>\<open>(A,(B,C));\<close> as the parser makes it is valid and carries no order tag,
  so \<^verbatim>\<open>reorder\<close> does reorder it, and returns the tree with an \<^verbatim>\<open>undefined\<close> row
  (the index off by one of \<^verbatim>\<open>bar_reorderRcpp\<close>); \<^verbatim>\<open>bipartition2\<close> then reads
  \<^verbatim>\<open>row[0]\<close> of that row and throws a \<^verbatim>\<open>TypeError\<close>.  So \<^verbatim>\<open>propPart\<close> returns no
  counts for this tree alone, nor for a list of two of it.  Given the same tree with its
  rows in postorder and tagged so, which \<^verbatim>\<open>reorder\<close> leaves as it is, it returns the
  clades \<open>{1, 2, 3}\<close> and \<open>{2, 3}\<close> with the counts \<open>1, 1\<close> for one tree and \<open>2, 2\<close> for
  two, as the claim says.  The engine is any that allows a call depth of two, four
  arguments and an array of length four.
\<close>

theorem propPart_untagged_throws:
  "valid tree_ABC \<and> order tree_ABC = None \<and>
   propPart \<lparr> max_depth = Suc (Suc d), max_args = 4 + a, max_length = 4 + l \<rparr> [tree_ABC] =
     Inl TypeError \<and>
   propPart \<lparr> max_depth = Suc (Suc d), max_args = 4 + a, max_length = 4 + l \<rparr>
     [tree_ABC, tree_ABC] = Inl TypeError \<and>
   valid post_ABC \<and> mset (edge post_ABC) = mset (edge tree_ABC) \<and>
   propPart \<lparr> max_depth = Suc (Suc d), max_args = 4 + a, max_length = 4 + l \<rparr> [post_ABC] =
     Inr \<lparr> partitions = [[Some 1, Some 2, Some 3], [Some 2, Some 3]], number = [1, 1],
           labels = [''A'', ''B'', ''C''] \<rparr> \<and>
   propPart \<lparr> max_depth = Suc (Suc d), max_args = 4 + a, max_length = 4 + l \<rparr>
     [post_ABC, post_ABC] =
     Inr \<lparr> partitions = [[Some 1, Some 2, Some 3], [Some 2, Some 3]], number = [2, 2],
           labels = [''A'', ''B'', ''C''] \<rparr>"
proof (intro conjI)
  let ?eng = "\<lparr> max_depth = Suc (Suc d), max_args = 4 + a, max_length = 4 + l \<rparr>"
  have r: "reorder ?eng tree_ABC ''postorder'' False = Inr (Phylo tree_ABC_postorder)"
    apply (simp add: reorder_def reorder_ape_def reorderRcpp_def math_max_def alloc_def
        tree_ABC_postorder_def tree_ABC_def)
    apply (simp add: xj_step_def xi_step_def L_step_def bucket_size_def bar_write_def js_get_def
        upt_rec numeral_nat)
    done
  have b: "bipartition2 ?eng (edge tree_ABC_postorder) n = Inl TypeError" for n
    by (simp add: bipartition2_def tree_ABC_postorder_def)
  have p: "reorder ?eng post_ABC ''postorder'' False = Inr (Phylo post_ABC)"
    by (simp add: reorder_def reorder_ape_def post_ABC_def)
  have c: "bipartition2 ?eng (edge post_ABC) (length (tipLabel post_ABC)) =
      Inr [[Some 1, Some 2, Some 3], [Some 2, Some 3]]"
    by (simp add: bipartition2_def math_max_def alloc_def post_ABC_def bipartition_step_def
        js_nth_def numeral_2_eq_2)
      (simp add: sort_clade_def List.map_filter_simps)
  show "valid tree_ABC" by code_simp
  show "order tree_ABC = None" by (simp add: tree_ABC_def)
  show "propPart ?eng [tree_ABC] = Inl TypeError"
    by (simp add: propPart_def r propPart2_def b)
  show "propPart ?eng [tree_ABC, tree_ABC] = Inl TypeError"
    by (simp add: propPart_def r propPart2_def b)
  show "valid post_ABC" by code_simp
  show "mset (edge post_ABC) = mset (edge tree_ABC)"
    by (simp add: post_ABC_def tree_ABC_def)
  have n: "tipLabel post_ABC = [''A'', ''B'', ''C'']"
    by (simp_all add: post_ABC_def)
  show "propPart ?eng [post_ABC] =
     Inr \<lparr> partitions = [[Some 1, Some 2, Some 3], [Some 2, Some 3]], number = [1, 1],
           labels = [''A'', ''B'', ''C''] \<rparr>"
    unfolding propPart_def reorder_all.simps p
    by (simp add: propPart2_def c) (simp add: n)
  show "propPart ?eng [post_ABC, post_ABC] =
     Inr \<lparr> partitions = [[Some 1, Some 2, Some 3], [Some 2, Some 3]], number = [2, 2],
           labels = [''A'', ''B'', ''C''] \<rparr>"
    unfolding propPart_def reorder_all.simps p
    by (simp add: propPart2_def c count_tree_def count_clade_def) (simp add: n)
qed

end
